theory Spec2Isabelle
  imports Complex_Main "HOL-Library.Multiset"
begin

section \<open>Python values and exceptions\<close>

text \<open>
  The values an \<open>ast.Constant\<close> node can carry, as far as this development needs them:
  strings, integers, booleans and \<open>None\<close>. Floating-point, complex, bytes and
  \<open>Ellipsis\<close> constants are outside the model.
\<close>

datatype const_value = CStr string | CInt int | CBool bool | CNone

text \<open>
  Exceptions are values. \<open>DbtRuntimeError\<close> is the error type of the host tool,
  \<open>KeyError\<close> is raised by subscripting a response that lacks the key, and
  \<open>OtherException\<close> stands for every other subclass of \<open>Exception\<close>, such as
  the ones raised by the parser or by the session client. Exceptions that are
  not subclasses of \<open>Exception\<close> (keyboard interrupts) are not modelled.
\<close>

datatype exn = DbtRuntimeError string | KeyError string | OtherException string

section \<open>The syntax tree of the compiled code\<close>

text \<open>
  The node kinds that \<open>_extract_packages_from_code\<close> tells apart, and \<open>Other\<close> for
  every other kind of node (modules, statements, other expressions) with its
  child nodes in field order. A \<open>keyword\<close> is a node of its own in Python; it is
  wrapped by \<open>KeywordNode\<close> where it occurs as a child. Expression contexts
  (\<open>Load\<close>, \<open>Store\<close>) are childless leaves that are never calls and are left out.
\<close>

datatype node =
    Name string
  | Attribute node string
  | Call node "node list" "keyword list"
  | PyList "node list"
  | Constant const_value
  | KeywordNode keyword
  | Other "node list"
and keyword = Keyword "string option" node

text \<open>\<open>ast.iter_child_nodes\<close>: the child nodes, field by field.\<close>

fun iter_child_nodes :: "node \<Rightarrow> node list" where
  "iter_child_nodes (Name i) = []"
| "iter_child_nodes (Attribute v a) = [v]"
| "iter_child_nodes (Call f args kws) = f # args @ map KeywordNode kws"
| "iter_child_nodes (PyList es) = es"
| "iter_child_nodes (Constant c) = []"
| "iter_child_nodes (KeywordNode (Keyword a v)) = [v]"
| "iter_child_nodes (Other ns) = ns"

text \<open>A weight of nodes under which every child is lighter than its parent.\<close>

fun node_weight :: "node \<Rightarrow> nat" and keyword_weight :: "keyword \<Rightarrow> nat" where
  "node_weight (Name i) = 1"
| "node_weight (Attribute v a) = Suc (node_weight v)"
| "node_weight (Call f args kws) =
     Suc (node_weight f + sum_list (map node_weight args) + sum_list (map keyword_weight kws))"
| "node_weight (PyList es) = Suc (sum_list (map node_weight es))"
| "node_weight (Constant c) = 1"
| "node_weight (KeywordNode k) = keyword_weight k"
| "node_weight (Other ns) = Suc (sum_list (map node_weight ns))"
| "keyword_weight (Keyword a v) = Suc (node_weight v)"

text \<open>
  \<open>ast.walk\<close>: breadth first, from a queue. The first node of the queue is
  yielded and its children are appended to the queue.
\<close>

function walk_queue :: "node list \<Rightarrow> node list" where
  "walk_queue [] = []"
| "walk_queue (n # todo) = n # walk_queue (todo @ iter_child_nodes n)"
  by pat_completeness auto
termination
proof (relation "measure (\<lambda>q. sum_list (map node_weight q))")
  show "wf (measure (\<lambda>q. sum_list (map node_weight q)))" by simp
next
  fix n :: node and todo :: "node list"
  have "sum_list (map node_weight (iter_child_nodes n)) < node_weight n"
  proof (cases n)
    case (Call f args kws)
    then show ?thesis by (simp add: comp_def)
  next
    case (KeywordNode k)
    then show ?thesis by (cases k) simp
  qed simp_all
  then show "(todo @ iter_child_nodes n, n # todo) \<in> measure (\<lambda>q. sum_list (map node_weight q))"
    by simp
qed

definition walk :: "node \<Rightarrow> node list" where
  "walk tree = walk_queue [tree]"

section \<open>Scanning the compiled code for packages\<close>

text \<open>
  The test of the loop body: a \<open>Call\<close> whose function is the attribute \<open>config\<close> of
  the name \<open>dbt\<close>. The result is the call's keywords.
\<close>

fun config_call_keywords :: "node \<Rightarrow> keyword list option" where
  "config_call_keywords (Call (Attribute (Name i) a) args kws) =
     (if a = ''config'' \<and> i = ''dbt'' then Some kws else None)"
| "config_call_keywords n = None"

text \<open>\<open>isinstance(kw.value, ast.List)\<close>, with the elements.\<close>

fun list_elts :: "node \<Rightarrow> node list option" where
  "list_elts (PyList es) = Some es"
| "list_elts n = None"

text \<open>The comprehension: the value of every element that is a \<open>Constant\<close>.\<close>

fun constant_values :: "node list \<Rightarrow> const_value list" where
  "constant_values [] = []"
| "constant_values (Constant c # es) = c # constant_values es"
| "constant_values (e # es) = constant_values es"

text \<open>
  The inner loop over the keywords of a matching call. \<open>Some\<close> is the
  \<open>return\<close> of the source, \<open>None\<close> is the loop running to its end.
\<close>

fun scan_keywords :: "keyword list \<Rightarrow> const_value list option" where
  "scan_keywords [] = None"
| "scan_keywords (Keyword arg v # kws) =
     (case (if arg = Some ''packages'' then list_elts v else None) of
        Some es \<Rightarrow> Some (constant_values es)
      | None \<Rightarrow> scan_keywords kws)"

text \<open>The outer loop over the nodes that \<open>ast.walk\<close> yields.\<close>

fun scan_nodes :: "node list \<Rightarrow> const_value list option" where
  "scan_nodes [] = None"
| "scan_nodes (n # ns) =
     (case config_call_keywords n of
        Some kws \<Rightarrow>
          (case scan_keywords kws of
             Some r \<Rightarrow> Some r
           | None \<Rightarrow> scan_nodes ns)
      | None \<Rightarrow> scan_nodes ns)"

text \<open>
  What is handed to \<open>ast.parse\<close>: a text, or an object that is not a text.
\<close>

datatype source = Text string | NonText

text \<open>
  \<open>_extract_packages_from_code\<close>. The parser \<open>ast.parse\<close> belongs to the
  standard library and is a parameter; \<open>Inl\<close> is the exception it raises.
  The \<open>try\<close> body either raises or returns from inside the loop or falls
  through; \<open>except Exception: pass\<close> and the final \<open>return []\<close> follow.
\<close>

definition extract_try_body ::
  "(source \<Rightarrow> exn + node) \<Rightarrow> source \<Rightarrow> exn + const_value list option" where
  "extract_try_body ast_parse compiled_code =
     (case ast_parse compiled_code of
        Inl e \<Rightarrow> Inl e
      | Inr tree \<Rightarrow> Inr (scan_nodes (walk tree)))"

definition extract_packages_from_code ::
  "(source \<Rightarrow> exn + node) \<Rightarrow> source \<Rightarrow> exn + const_value list" where
  "extract_packages_from_code ast_parse compiled_code =
     (case extract_try_body ast_parse compiled_code of
        Inr (Some r) \<Rightarrow> Inr r
      | Inr None \<Rightarrow> Inr []
      | Inl e \<Rightarrow> Inr [])"

section \<open>The helper object\<close>

text \<open>
  The value of \<open>packages\<close> in the model configuration: a list of constants, or
  any other value that is true as a condition (a string, a tuple, a list that
  holds an unhashable element). Line 74 raises \<open>TypeError\<close> on the latter:
  it cannot be added to a list, or its elements cannot be keys.
\<close>

datatype declared_packages = DeclaredList "const_value list" | DeclaredOther

text \<open>
  The fields of \<open>GluePythonJobHelper\<close> that \<open>submit\<close> reads. Times are in seconds,
  as real numbers; the rounding of floating-point clock values is not modelled.
\<close>

record GluePythonJobHelper =
  packages :: declared_packages
  timeout :: real
  polling_interval :: real

text \<open>
  The model descriptor handed to the constructor: the \<open>config\<close> sub-mapping with
  its optional entries. \<open>None\<close> is an absent key.
\<close>

record model_config =
  config_packages :: "declared_packages option"
  config_timeout :: "real option"

record parsed_model =
  model_alias :: "string option"
  model_schema :: "string option"
  model_config :: "model_config option"

text \<open>
  \<open>__init__\<close>. Subscripting \<open>alias\<close>, \<open>schema\<close> and \<open>config\<close> raises \<open>KeyError\<close>
  on an absent key; \<open>packages\<close> falls back to the empty list, the timeout to
  one hour; the polling interval is ten seconds.
\<close>

definition init :: "parsed_model \<Rightarrow> exn + GluePythonJobHelper" where
  "init pm =
     (case model_alias pm of
        None \<Rightarrow> Inl (KeyError ''alias'')
      | Some a \<Rightarrow>
     (case model_schema pm of
        None \<Rightarrow> Inl (KeyError ''schema'')
      | Some sc \<Rightarrow>
     (let pkgs = (case model_config pm of
                    None \<Rightarrow> DeclaredList []
                  | Some c \<Rightarrow>
                      (case config_packages c of
                         None \<Rightarrow> DeclaredList []
                       | Some ps \<Rightarrow> ps))
      in case model_config pm of
           None \<Rightarrow> Inl (KeyError ''config'')
         | Some c \<Rightarrow>
             Inr \<lparr>packages = pkgs,
                  timeout = (case config_timeout c of None \<Rightarrow> 60 * 60 | Some t \<Rightarrow> t),
                  polling_interval = 10\<rparr>)))"

section \<open>The session client, the connection and the clock\<close>

text \<open>
  The responses of the session service. A dictionary is a partial map; the
  values of an output payload are taken as their text.
\<close>

type_synonym payload = "string \<rightharpoonup> string"

record statement =
  statement_State :: "string option"
  statement_Output :: "payload option"

record get_statement_response =
  response_Statement :: "statement option"

record run_statement_response =
  response_Id :: "nat option"

text \<open>\<open>d.get(k, default)\<close>.\<close>

definition dict_get :: "payload \<Rightarrow> string \<Rightarrow> string \<Rightarrow> string" where
  "dict_get d k dflt = (case d k of None \<Rightarrow> dflt | Some v \<Rightarrow> v)"

text \<open>
  The diagnostic \<open>print\<close> calls of the source have no part in what follows and
  are left out.
\<close>

text \<open>
  Everything outside the source file is the environment: a world of type \<open>'w\<close>
  and the operations on it. Each operation that can raise returns \<open>Inl\<close> of the
  exception. \<open>connection_cursor\<close> stands for \<open>connection.cursor()\<close> followed by
  the reads of \<open>connection.client\<close> and \<open>connection.session_id\<close>, and returns the
  session id. \<open>set_order\<close> is the order in which a set of the given keys is
  iterated, and \<open>exn_str\<close> is \<open>str\<close> of an exception.
\<close>

record 'w environment =
  ast_parse :: "source \<Rightarrow> exn + node"
  new_GlueConnection :: "'w \<Rightarrow> (exn + unit) \<times> 'w"
  connection_cursor :: "'w \<Rightarrow> (exn + string) \<times> 'w"
  connection_close :: "'w \<Rightarrow> (exn + unit) \<times> 'w"
  client_run_statement :: "string \<Rightarrow> string \<Rightarrow> 'w \<Rightarrow> (exn + run_statement_response) \<times> 'w"
  client_get_statement :: "string \<Rightarrow> nat \<Rightarrow> 'w \<Rightarrow> (exn + get_statement_response) \<times> 'w"
  time_time :: "'w \<Rightarrow> real"
  time_sleep :: "real \<Rightarrow> 'w \<Rightarrow> 'w"
  set_order :: "const_value list \<Rightarrow> const_value list"
  exn_str :: "exn \<Rightarrow> string"

text \<open>The calls made on the environment are recorded, in order.\<close>

datatype event =
    EvConnect
  | EvCursor
  | EvRunStatement string string
  | EvGetStatement string nat
  | EvSleep real
  | EvClose

record 'w state =
  world :: 'w
  trace :: "event list"

section \<open>Running and awaiting a statement\<close>

text \<open>\<open>_run_statement\<close>: submit the code, return \<open>response["Id"]\<close>.\<close>

definition run_statement ::
  "'w environment \<Rightarrow> string \<Rightarrow> string \<Rightarrow> 'w state \<Rightarrow> (exn + nat) \<times> 'w state" where
  "run_statement env session_id code s =
     (case client_run_statement env session_id code (world s) of
        (r, w') \<Rightarrow>
          (let s' = \<lparr>world = w', trace = trace s @ [EvRunStatement session_id code]\<rparr>
           in case r of
                Inl e \<Rightarrow> (Inl e, s')
              | Inr response \<Rightarrow>
                  (case response_Id response of
                     None \<Rightarrow> (Inl (KeyError ''Id''), s')
                   | Some i \<Rightarrow> (Inr i, s'))))"

text \<open>\<open>str.lower\<close> on the letters A to Z; every other character is kept.\<close>

definition lower_char :: "char \<Rightarrow> char" where
  "lower_char c =
     (let n = (of_char c :: nat)
      in if 65 \<le> n \<and> n \<le> 90 then char_of (n + 32) else c)"

definition lower :: "string \<Rightarrow> string" where
  "lower s = map lower_char s"

definition newline :: string where
  "newline = [CHR 0x0A]"

text \<open>
  One pass through the body of the \<open>while\<close> loop of
  \<open>_wait_for_statement_completion\<close>: the status is fetched and inspected. The
  pass either leaves the function, by \<open>return\<close> or by an exception, or reaches
  \<open>time.sleep\<close> and goes back to the loop head. The value returned is \<open>None\<close>
  of Python, written \<open>Inr None\<close>.
\<close>

datatype 'w pass = Leaves "(exn + payload option) \<times> 'w state" | Sleeps "'w state"

definition loop_body ::
  "'w environment \<Rightarrow> GluePythonJobHelper \<Rightarrow> string \<Rightarrow> nat \<Rightarrow> 'w state \<Rightarrow> 'w pass" where
  "loop_body env self session_id statement_id s =
     (case client_get_statement env session_id statement_id (world s) of
        (r, w1) \<Rightarrow>
          (let s1 = \<lparr>world = w1,
                     trace = trace s @ [EvGetStatement session_id statement_id]\<rparr>
           in case r of
                Inl e \<Rightarrow> Leaves (Inl e, s1)
              | Inr response \<Rightarrow>
                  (case response_Statement response of
                     None \<Rightarrow> Leaves (Inl (KeyError ''Statement''), s1)
                   | Some st \<Rightarrow>
                  (case statement_State st of
                     None \<Rightarrow> Leaves (Inl (KeyError ''State''), s1)
                   | Some state \<Rightarrow>
                       if state = ''AVAILABLE'' then
                         (let output = (case statement_Output st of
                                          None \<Rightarrow> Map.empty
                                        | Some d \<Rightarrow> d);
                              status = dict_get output ''Status'' ''''
                          in if lower status = ''error'' then
                               (let error_message = dict_get output ''ErrorName'' '''';
                                    error_value = dict_get output ''ErrorValue'' '''';
                                    traceback = dict_get output ''Traceback'' ''''
                                in Leaves (Inl (DbtRuntimeError
                                     (''Python model failed with error: '' @ error_message
                                        @ newline @ error_value @ newline @ traceback)),
                                   s1))
                             else Leaves (Inr None, s1))
                       else if state = ''CANCELLED'' \<or> state = ''ERROR'' then
                         Leaves (Inl (DbtRuntimeError
                                (''Statement execution failed with state: '' @ state)), s1)
                       else
                         Sleeps \<lparr>world = time_sleep env (polling_interval self) w1,
                                 trace = trace s1 @ [EvSleep (polling_interval self)]\<rparr>))))"

text \<open>
  The \<open>while\<close> loop, from the test of the loop head on. The loop may run forever,
  so the result is an option: \<open>None\<close> is a loop that never returns.
\<close>

partial_function (option) wait_loop ::
  "'w environment \<Rightarrow> GluePythonJobHelper \<Rightarrow> string \<Rightarrow> nat \<Rightarrow> real \<Rightarrow> 'w state
     \<Rightarrow> ((exn + payload option) \<times> 'w state) option" where
  "wait_loop env self session_id statement_id start_time s =
     (if time_time env (world s) - start_time < timeout self then
        (case loop_body env self session_id statement_id s of
           Leaves out \<Rightarrow> Some out
         | Sleeps s' \<Rightarrow> wait_loop env self session_id statement_id start_time s')
      else Some (Inl (DbtRuntimeError ''Timed out waiting for statement to complete''), s))"

declare wait_loop.simps [code]

text \<open>\<open>_wait_for_statement_completion\<close>: read the clock, then loop.\<close>

definition wait_for_statement_completion ::
  "'w environment \<Rightarrow> GluePythonJobHelper \<Rightarrow> string \<Rightarrow> nat \<Rightarrow> 'w state
     \<Rightarrow> ((exn + payload option) \<times> 'w state) option" where
  "wait_for_statement_completion env self session_id statement_id s =
     wait_loop env self session_id statement_id (time_time env (world s)) s"

section \<open>Merging the packages\<close>

text \<open>
  Equality of Python values as dictionaries and sets see it: \<open>True\<close> is \<open>1\<close> and
  \<open>False\<close> is \<open>0\<close>. \<open>py_key\<close> maps equal values to one representative.
\<close>

fun py_key :: "const_value \<Rightarrow> const_value" where
  "py_key (CBool b) = CInt (if b then 1 else 0)"
| "py_key c = c"

definition py_eq :: "const_value \<Rightarrow> const_value \<Rightarrow> bool" where
  "py_eq a b = (py_key a = py_key b)"

text \<open>
  \<open>dict.fromkeys\<close>: the keys in insertion order; a key equal to one already
  present is not inserted again.
\<close>

fun fromkeys_acc :: "const_value list \<Rightarrow> const_value list \<Rightarrow> const_value list" where
  "fromkeys_acc keys [] = keys"
| "fromkeys_acc keys (x # xs) =
     fromkeys_acc (if list_ex (\<lambda>k. py_eq k x) keys then keys else keys @ [x]) xs"

definition dict_fromkeys :: "const_value list \<Rightarrow> const_value list" where
  "dict_fromkeys xs = fromkeys_acc [] xs"

text \<open>
  \<open>list(set(dict.fromkeys(self.packages + code_packages)))\<close>: the set holds the
  keys of the dictionary, and the list holds them in the set's iteration order.
\<close>

definition merge_packages ::
  "'w environment \<Rightarrow> const_value list \<Rightarrow> const_value list \<Rightarrow> const_value list" where
  "merge_packages env declared code_packages =
     set_order env (dict_fromkeys (declared @ code_packages))"

section \<open>The install statement\<close>

function str_nat :: "nat \<Rightarrow> string" where
  "str_nat n =
     (if n < 10 then [char_of (48 + n)]
      else str_nat (n div 10) @ [char_of (48 + n mod 10)])"
  by pat_completeness auto
termination
  by (relation "measure (\<lambda>n. n)") auto

text \<open>\<open>str\<close> of a constant, as an f-string formats it.\<close>

fun py_str :: "const_value \<Rightarrow> string" where
  "py_str (CStr s) = s"
| "py_str (CInt i) = (if i < 0 then ''-'' @ str_nat (nat (- i)) else str_nat (nat i))"
| "py_str (CBool b) = (if b then ''True'' else ''False'')"
| "py_str CNone = ''None''"

text \<open>\<open>sep.join\<close>.\<close>

fun join :: "string \<Rightarrow> string list \<Rightarrow> string" where
  "join sep [] = []"
| "join sep [x] = x"
| "join sep (x # y # ys) = x @ sep @ join sep (y # ys)"

definition install_code :: "const_value list \<Rightarrow> string" where
  "install_code pkgs =
     (let pkg_list = join '', '' (map (\<lambda>pkg. [CHR 0x22] @ py_str pkg @ [CHR 0x22]) pkgs)
      in ''import subprocess, sys'' @ newline
         @ ''subprocess.check_call([sys.executable, '' @ [CHR 0x27] @ ''-m'' @ [CHR 0x27]
         @ '', '' @ [CHR 0x27] @ ''pip'' @ [CHR 0x27]
         @ '', '' @ [CHR 0x27] @ ''install'' @ [CHR 0x27]
         @ '', '' @ pkg_list
         @ '', '' @ [CHR 0x27] @ ''-q'' @ [CHR 0x27] @ ''])'')"

section \<open>The orchestration: \<open>submit\<close>\<close>

text \<open>
  The first lines of \<open>submit\<close>, before the \<open>try\<close>: the connection is made and the
  cursor is taken, which creates or reuses the session. An exception here
  leaves \<open>submit\<close> at once.
\<close>

definition open_connection :: "'w environment \<Rightarrow> 'w \<Rightarrow> (exn + string) \<times> 'w state" where
  "open_connection env w =
     (case new_GlueConnection env w of
        (Inl e, w1) \<Rightarrow> (Inl e, \<lparr>world = w1, trace = [EvConnect]\<rparr>)
      | (Inr u, w1) \<Rightarrow>
          (case connection_cursor env w1 of
             (r, w2) \<Rightarrow> (r, \<lparr>world = w2, trace = [EvConnect, EvCursor]\<rparr>)))"

text \<open>
  Lines 73 and 74, still before the \<open>try\<close>: the code is scanned, and the declared
  packages are merged with the scanned ones.
\<close>

definition effective_packages ::
  "'w environment \<Rightarrow> GluePythonJobHelper \<Rightarrow> string \<Rightarrow> exn + const_value list" where
  "effective_packages env self compiled_code =
     (case extract_packages_from_code (ast_parse env) (Text compiled_code) of
        Inl e \<Rightarrow> Inl e
      | Inr code_packages \<Rightarrow>
          (case packages self of
             DeclaredOther \<Rightarrow> Inl (OtherException ''TypeError'')
           | DeclaredList declared \<Rightarrow> Inr (merge_packages env declared code_packages)))"

text \<open>The install step of the \<open>try\<close> body, taken when the package list is not empty.\<close>

definition install_packages ::
  "'w environment \<Rightarrow> GluePythonJobHelper \<Rightarrow> string \<Rightarrow> const_value list \<Rightarrow> 'w state
     \<Rightarrow> ((exn + unit) \<times> 'w state) option" where
  "install_packages env self session_id pkgs s =
     (case run_statement env session_id (install_code pkgs) s of
        (Inl e, s1) \<Rightarrow> Some (Inl e, s1)
      | (Inr install_statement_id, s1) \<Rightarrow>
          (case wait_for_statement_completion env self session_id install_statement_id s1 of
             None \<Rightarrow> None
           | Some (Inl e, s2) \<Rightarrow> Some (Inl e, s2)
           | Some (Inr v, s2) \<Rightarrow> Some (Inr (), s2)))"

text \<open>The body of the \<open>try\<close>: install if there are packages, then the main statement.\<close>

definition submit_try ::
  "'w environment \<Rightarrow> GluePythonJobHelper \<Rightarrow> string \<Rightarrow> string \<Rightarrow> const_value list
     \<Rightarrow> 'w state \<Rightarrow> ((exn + payload option) \<times> 'w state) option" where
  "submit_try env self session_id compiled_code pkgs s =
     (case (if pkgs \<noteq> [] then install_packages env self session_id pkgs s
            else Some (Inr (), s)) of
        None \<Rightarrow> None
      | Some (Inl e, s2) \<Rightarrow> Some (Inl e, s2)
      | Some (Inr u, s2) \<Rightarrow>
          (case run_statement env session_id compiled_code s2 of
             (Inl e, s3) \<Rightarrow> Some (Inl e, s3)
           | (Inr statement_id, s3) \<Rightarrow>
               wait_for_statement_completion env self session_id statement_id s3))"

text \<open>
  \<open>except Exception\<close> and \<open>finally\<close>: an exception of the body becomes a
  \<open>DbtRuntimeError\<close>, then the connection is closed; an exception of \<open>close\<close>
  replaces whatever was on its way out.
\<close>

definition submit_finally ::
  "'w environment \<Rightarrow> (exn + payload option) \<times> 'w state \<Rightarrow> (exn + unit) \<times> 'w state" where
  "submit_finally env body =
     (case body of
        (r, s1) \<Rightarrow>
          (case connection_close env (world s1) of
             (c, w2) \<Rightarrow>
               (let s2 = \<lparr>world = w2, trace = trace s1 @ [EvClose]\<rparr>
                in case c of
                     Inl e \<Rightarrow> (Inl e, s2)
                   | Inr u \<Rightarrow>
                       (case r of
                          Inl e \<Rightarrow>
                            (Inl (DbtRuntimeError
                                   (''Python model execution failed: '' @ exn_str env e)), s2)
                        | Inr v \<Rightarrow> (Inr (), s2)))))"

text \<open>\<open>submit\<close>, started in world \<open>w\<close> with an empty record of calls.\<close>

definition submit ::
  "'w environment \<Rightarrow> GluePythonJobHelper \<Rightarrow> string \<Rightarrow> 'w
     \<Rightarrow> ((exn + unit) \<times> 'w state) option" where
  "submit env self compiled_code w =
     (case open_connection env w of
        (Inl e, s0) \<Rightarrow> Some (Inl e, s0)
      | (Inr session_id, s0) \<Rightarrow>
          (case effective_packages env self compiled_code of
             Inl e \<Rightarrow> Some (Inl e, s0)
           | Inr pkgs \<Rightarrow>
               (case submit_try env self session_id compiled_code pkgs s0 of
                  None \<Rightarrow> None
                | Some body \<Rightarrow> Some (submit_finally env body))))"

section \<open>A simulated session for concrete runs\<close>

text \<open>
  A world for running the model on concrete inputs: a clock, the number of
  statements submitted, the number of status fetches made and the number of
  times the connection was closed so far. The
  statement ids are handed out in order from 0. The script gives the statement
  that the service reports for a statement id at a given fetch, and every
  fetch takes \<open>fetch_time\<close> seconds.
\<close>

record sim_world =
  clock :: real
  submitted :: nat
  fetches :: nat
  closes :: nat

text \<open>\<open>s.split(c)\<close> for a separator of one character.\<close>

fun split_on :: "char \<Rightarrow> string \<Rightarrow> string list" where
  "split_on c [] = [[]]"
| "split_on c (x # xs) =
     (if x = c then [] # split_on c xs
      else (case split_on c xs of
              [] \<Rightarrow> [[x]]
            | l # ls \<Rightarrow> (x # l) # ls))"

text \<open>
  \<open>str\<close> of an exception. A \<open>DbtRuntimeError\<close> without node and stack prints the
  line \<open>Runtime Error\<close> and then the lines of its message, each indented by
  two spaces; a \<open>KeyError\<close> prints the key in quotes; \<open>OtherException\<close> carries
  its text.
\<close>

fun sim_exn_str :: "exn \<Rightarrow> string" where
  "sim_exn_str (DbtRuntimeError m) =
     ''Runtime Error'' @ newline
       @ join newline (map (\<lambda>line. ''  '' @ line) (split_on (CHR 0x0A) m))"
| "sim_exn_str (KeyError k) = [CHR 0x27] @ k @ [CHR 0x27]"
| "sim_exn_str (OtherException m) = m"

definition sim_env ::
  "(source \<Rightarrow> exn + node) \<Rightarrow> (nat \<Rightarrow> nat \<Rightarrow> statement) \<Rightarrow> real \<Rightarrow> sim_world environment" where
  "sim_env parse script fetch_time =
     \<lparr>ast_parse = parse,
      new_GlueConnection = (\<lambda>w. (Inr (), w)),
      connection_cursor = (\<lambda>w. (Inr ''session'', w)),
      connection_close = (\<lambda>w. (Inr (), w\<lparr>closes := Suc (closes w)\<rparr>)),
      client_run_statement =
        (\<lambda>sid code w. (Inr \<lparr>response_Id = Some (submitted w)\<rparr>,
                        w\<lparr>submitted := Suc (submitted w)\<rparr>)),
      client_get_statement =
        (\<lambda>sid i w. (Inr \<lparr>response_Statement = Some (script i (fetches w))\<rparr>,
                     w\<lparr>clock := clock w + fetch_time, fetches := Suc (fetches w)\<rparr>)),
      time_time = clock,
      time_sleep = (\<lambda>d w. w\<lparr>clock := clock w + d\<rparr>),
      set_order = (\<lambda>keys. keys),
      exn_str = sim_exn_str\<rparr>"

definition sim_start :: sim_world where
  "sim_start = \<lparr>clock = 0, submitted = 0, fetches = 0, closes = 0\<rparr>"

definition in_state :: "string \<Rightarrow> statement" where
  "in_state st = \<lparr>statement_State = Some st, statement_Output = None\<rparr>"

definition available :: "payload \<Rightarrow> statement" where
  "available out = \<lparr>statement_State = Some ''AVAILABLE'', statement_Output = Some out\<rparr>"

text \<open>A compiled code without any call, as the parser returns it.\<close>

definition parse_plain :: "source \<Rightarrow> exn + node" where
  "parse_plain src =
     (case src of
        Text t \<Rightarrow> Inr (Other [])
      | NonText \<Rightarrow> Inl (OtherException ''TypeError''))"

section \<open>Notions used to state the properties\<close>

text \<open>What one node of the walk contributes: the list the source would return at it.\<close>

definition packages_at :: "node \<Rightarrow> const_value list option" where
  "packages_at n =
     (case config_call_keywords n of
        None \<Rightarrow> None
      | Some kws \<Rightarrow> scan_keywords kws)"

text \<open>A keyword named \<open>packages\<close> whose value is a literal list.\<close>

fun packages_list_keyword :: "keyword \<Rightarrow> bool" where
  "packages_list_keyword (Keyword arg v) = (arg = Some ''packages'' \<and> list_elts v \<noteq> None)"

text \<open>The codes handed to \<open>run_statement\<close> in a record of calls, in order.\<close>

fun submitted_codes :: "event list \<Rightarrow> string list" where
  "submitted_codes [] = []"
| "submitted_codes (EvRunStatement sid c # evs) = c # submitted_codes evs"
| "submitted_codes (ev # evs) = submitted_codes evs"

text \<open>
  Two records of calls with the same codes submitted and the same number of
  calls of \<open>close\<close>.
\<close>

definition same_calls :: "event list \<Rightarrow> event list \<Rightarrow> bool" where
  "same_calls tr tr' =
     (submitted_codes tr' = submitted_codes tr \<and> count_list tr' EvClose = count_list tr EvClose)"

text \<open>
  The loop heads of a run of the loop started in \<open>s0\<close>: the state at the
  \<open>k\<close>-th test of the loop head, if the loop gets that far. The next loop
  head is reached when the test succeeds and the pass through the body ends
  in the sleep.
\<close>

fun loop_head_at ::
  "'w environment \<Rightarrow> GluePythonJobHelper \<Rightarrow> string \<Rightarrow> nat \<Rightarrow> real \<Rightarrow> 'w state \<Rightarrow> nat
     \<Rightarrow> 'w state option" where
  "loop_head_at env self session_id statement_id start_time s0 0 = Some s0"
| "loop_head_at env self session_id statement_id start_time s0 (Suc k) =
     (case loop_head_at env self session_id statement_id start_time s0 k of
        None \<Rightarrow> None
      | Some s \<Rightarrow>
          if time_time env (world s) - start_time < timeout self then
            (case loop_body env self session_id statement_id s of
               Leaves out \<Rightarrow> None
             | Sleeps s' \<Rightarrow> Some s')
          else None)"

text \<open>
  The \<open>k\<close>-th pass through the loop body is entered in state \<open>s\<close>: the loop
  gets to its \<open>k\<close>-th loop head, in state \<open>s\<close>, and the test succeeds there.
  These are the states in which the loop fetches the status.
\<close>

definition fetch_made ::
  "'w environment \<Rightarrow> GluePythonJobHelper \<Rightarrow> string \<Rightarrow> nat \<Rightarrow> real \<Rightarrow> 'w state \<Rightarrow> nat
     \<Rightarrow> 'w state \<Rightarrow> bool" where
  "fetch_made env self session_id statement_id start_time s0 k s =
     (loop_head_at env self session_id statement_id start_time s0 k = Some s
      \<and> time_time env (world s) - start_time < timeout self)"



text \<open>A status fetch that returns normally with a state that is not terminal.\<close>

definition non_terminal :: "exn + get_statement_response \<Rightarrow> bool" where
  "non_terminal r =
     (case r of
        Inl e \<Rightarrow> False
      | Inr response \<Rightarrow>
          (case response_Statement response of
             None \<Rightarrow> False
           | Some st \<Rightarrow>
               (case statement_State st of
                  None \<Rightarrow> False
                | Some state \<Rightarrow>
                    state \<noteq> ''AVAILABLE'' \<and> state \<noteq> ''CANCELLED'' \<and> state \<noteq> ''ERROR'')))"

section \<open>Concrete inputs\<close>

text \<open>The call \<open>dbt.config(packages=v)\<close> and a module of expression statements.\<close>

definition config_call :: "node \<Rightarrow> node" where
  "config_call v = Call (Attribute (Name ''dbt'') ''config'') [] [Keyword (Some ''packages'') v]"

definition str_list :: "string list \<Rightarrow> node" where
  "str_list xs = PyList (map (\<lambda>x. Constant (CStr x)) xs)"

definition module_of :: "node list \<Rightarrow> node" where
  "module_of exprs = Other (map (\<lambda>e. Other [e]) exprs)"

definition parse_as :: "node \<Rightarrow> source \<Rightarrow> exn + node" where
  "parse_as tree src =
     (case src of
        Text t \<Rightarrow> Inr tree
      | NonText \<Rightarrow> Inl (OtherException ''TypeError''))"

definition parse_fails :: "source \<Rightarrow> exn + node" where
  "parse_fails src = Inl (OtherException ''SyntaxError'')"

text \<open>
  The module of \<open>dbt.config(packages=["x"])\<close> followed by
  \<open>dbt.config(packages=["a", "b"])\<close>.
\<close>

definition two_calls :: node where
  "two_calls = module_of [config_call (str_list [''x'']), config_call (str_list [''a'', ''b''])]"

text \<open>The module of \<open>dbt.config(packages=["a", "b"])\<close> alone.\<close>

definition one_call :: node where
  "one_call = module_of [config_call (str_list [''a'', ''b''])]"

text \<open>The module of \<open>dbt.config(packages=["b", "c"])\<close>.\<close>

definition bc_call :: node where
  "bc_call = module_of [config_call (str_list [''b'', ''c''])]"

text \<open>The module of \<open>dbt.config(packages=pkgs)\<close>, a variable reference.\<close>

definition variable_call :: node where
  "variable_call = module_of [config_call (Name ''pkgs'')]"

text \<open>
  The module of \<open>dbt.config(packages=["a", 1, pkg, None])\<close> followed by
  \<open>dbt.config(packages=["z"])\<close>.
\<close>

definition mixed_calls :: node where
  "mixed_calls =
     module_of
       [config_call (PyList [Constant (CStr ''a''), Constant (CInt 1), Name ''pkg'',
                             Constant CNone]),
        config_call (str_list [''z''])]"

text \<open>The texts of the modules above.\<close>

definition dq :: string where
  "dq = [CHR 0x22]"

definition one_call_text :: string where
  "one_call_text = ''dbt.config(packages=['' @ dq @ ''a'' @ dq @ '', '' @ dq @ ''b'' @ dq @ ''])''"

definition two_calls_text :: string where
  "two_calls_text =
     ''dbt.config(packages=['' @ dq @ ''x'' @ dq @ ''])'' @ newline @ one_call_text"

definition bc_call_text :: string where
  "bc_call_text = ''dbt.config(packages=['' @ dq @ ''b'' @ dq @ '', '' @ dq @ ''c'' @ dq @ ''])''"

definition variable_call_text :: string where
  "variable_call_text = ''dbt.config(packages=pkgs)''"

definition mixed_calls_text :: string where
  "mixed_calls_text =
     ''dbt.config(packages=['' @ dq @ ''a'' @ dq @ '', 1, pkg, None])'' @ newline
       @ ''dbt.config(packages=['' @ dq @ ''z'' @ dq @ ''])''"

text \<open>A helper with the given packages and timeout.\<close>

definition helper :: "const_value list \<Rightarrow> real \<Rightarrow> GluePythonJobHelper" where
  "helper pkgs t = \<lparr>packages = DeclaredList pkgs, timeout = t, polling_interval = 10\<rparr>"

text \<open>Scripts of the session service.\<close>

definition always_running :: "nat \<Rightarrow> nat \<Rightarrow> statement" where
  "always_running i n = in_state ''RUNNING''"

definition ok_payload :: payload where
  "ok_payload = [''Status'' \<mapsto> ''ok'']"

definition error_payload :: payload where
  "error_payload =
     [''Status'' \<mapsto> ''ERROR'', ''ErrorName'' \<mapsto> ''NameError'',
      ''ErrorValue'' \<mapsto> ''x'', ''Traceback'' \<mapsto> ''tb'']"

definition always_ok :: "nat \<Rightarrow> nat \<Rightarrow> statement" where
  "always_ok i n = available ok_payload"

definition always_error_payload :: "nat \<Rightarrow> nat \<Rightarrow> statement" where
  "always_error_payload i n = available error_payload"

text \<open>A statement that is \<open>RUNNING\<close> for a hundred fetches and then succeeds.\<close>

definition finishes_late :: "nat \<Rightarrow> nat \<Rightarrow> statement" where
  "finishes_late i n = (if n < 100 then in_state ''RUNNING'' else available ok_payload)"

text \<open>The first statement submitted ends in state \<open>ERROR\<close>.\<close>

definition first_fails :: "nat \<Rightarrow> nat \<Rightarrow> statement" where
  "first_fails i n = (if i = 0 then in_state ''ERROR'' else available ok_payload)"

text \<open>The first statement succeeds after one fetch, the second ends in \<open>CANCELLED\<close>.\<close>

definition second_fails :: "nat \<Rightarrow> nat \<Rightarrow> statement" where
  "second_fails i n =
     (if i = 0 then (if n = 0 then in_state ''RUNNING'' else available ok_payload)
      else in_state ''CANCELLED'')"

text \<open>A session whose cursor cannot be obtained.\<close>

definition no_session_env :: "sim_world environment" where
  "no_session_env =
     (sim_env parse_plain always_ok 0)
       \<lparr>connection_cursor := (\<lambda>w. (Inl (OtherException ''no session''), w))\<rparr>"


text \<open>A helper whose declared packages are the string \<open>"pandas"\<close>, not a list.\<close>

definition helper_str_packages :: GluePythonJobHelper where
  "helper_str_packages = \<lparr>packages = DeclaredOther, timeout = 25, polling_interval = 10\<rparr>"

definition start_state :: "sim_world state" where
  "start_state = \<lparr>world = sim_start, trace = []\<rparr>"

section \<open>Properties of the poll loop\<close>

lemma lower_ERROR: "lower ''ERROR'' = ''error''"
  by code_simp

lemma lower_ok: "lower ''ok'' = ''ok''"
  by code_simp

text \<open>
  Claim C10. When the configured timeout is zero or negative,
  \<open>_wait_for_statement_completion\<close> raises the timeout error at once: the state
  is returned unchanged, so no status fetch has been made, whatever the
  service would have reported.
\<close>

theorem zero_timeout_raises_without_fetch:
  assumes "timeout self \<le> 0"
  shows "wait_for_statement_completion env self session_id statement_id s =
           Some (Inl (DbtRuntimeError ''Timed out waiting for statement to complete''), s)"
  using assms
  by (subst wait_for_statement_completion_def, subst wait_loop.simps) simp

text \<open>
  Witness for C10: timeout 0, and a service on which the statement is already
  \<open>AVAILABLE\<close>.
\<close>

theorem zero_timeout_raises_without_fetch_witness:
  "wait_for_statement_completion (sim_env parse_plain always_ok 0) (helper [] 0) ''session'' 0
     start_state =
   Some (Inl (DbtRuntimeError ''Timed out waiting for statement to complete''), start_state)
   \<and> trace start_state = []"
  using zero_timeout_raises_without_fetch
    [of "helper [] 0" "sim_env parse_plain always_ok 0" "''session''" 0 start_state]
  by (simp add: helper_def start_state_def)

text \<open>
  Claim C4, as amended. When a pass of the loop fetches a statement in state
  \<open>AVAILABLE\<close>: if the \<open>Status\<close> of its output payload is \<open>error\<close> in any
  letter case, the function raises a \<open>DbtRuntimeError\<close> whose message carries
  \<open>ErrorName\<close>, \<open>ErrorValue\<close> and \<open>Traceback\<close> of the payload; otherwise it
  returns normally, and the value returned is \<open>None\<close>, not the payload.
\<close>

theorem available_poll_outcome:
  assumes head: "time_time env (world s) - start_time < timeout self"
    and fetch: "client_get_statement env session_id statement_id (world s)
                  = (Inr \<lparr>response_Statement = Some st\<rparr>, w1)"
    and avail: "statement_State st = Some ''AVAILABLE''"
    and out: "output = (case statement_Output st of None \<Rightarrow> Map.empty | Some d \<Rightarrow> d)"
  shows "wait_loop env self session_id statement_id start_time s =
           Some (if lower (dict_get output ''Status'' '''') = ''error''
                 then Inl (DbtRuntimeError
                        (''Python model failed with error: '' @ dict_get output ''ErrorName'' ''''
                           @ newline @ dict_get output ''ErrorValue'' ''''
                           @ newline @ dict_get output ''Traceback'' ''''))
                 else Inr None,
                 \<lparr>world = w1, trace = trace s @ [EvGetStatement session_id statement_id]\<rparr>)"
  using assms
  by (subst wait_loop.simps) (simp add: loop_body_def Let_def)

text \<open>
  Witness for C4: one run on a payload with status \<open>ERROR\<close>, one on a payload
  with status \<open>ok\<close>.
\<close>

theorem available_poll_outcome_witness:
  "wait_loop (sim_env parse_plain always_error_payload 0) (helper [] 25) ''session'' 0 0
       start_state =
     Some (Inl (DbtRuntimeError
                 (''Python model failed with error: NameError'' @ newline @ ''x''
                    @ newline @ ''tb'')),
           \<lparr>world = \<lparr>clock = 0, submitted = 0, fetches = 1, closes = 0\<rparr>,
            trace = [EvGetStatement ''session'' 0]\<rparr>)
   \<and> wait_loop (sim_env parse_plain always_ok 0) (helper [] 25) ''session'' 0 0 start_state =
     Some (Inr None,
           \<lparr>world = \<lparr>clock = 0, submitted = 0, fetches = 1, closes = 0\<rparr>,
            trace = [EvGetStatement ''session'' 0]\<rparr>)"
  using available_poll_outcome
    [of "sim_env parse_plain always_error_payload 0" start_state 0 "helper [] 25" "''session''" 0
        "available error_payload" "\<lparr>clock = 0, submitted = 0, fetches = 1, closes = 0\<rparr>" error_payload]
    available_poll_outcome
    [of "sim_env parse_plain always_ok 0" start_state 0 "helper [] 25" "''session''" 0
        "available ok_payload" "\<lparr>clock = 0, submitted = 0, fetches = 1, closes = 0\<rparr>" ok_payload]
  by (simp add: sim_env_def helper_def start_state_def sim_start_def always_error_payload_def
        always_ok_def available_def error_payload_def ok_payload_def dict_get_def
        lower_ERROR lower_ok)

text \<open>
  Counterexample to C4 as stated: on a statement that is \<open>AVAILABLE\<close> with the
  payload \<open>{"Status": "ok"}\<close> the function returns \<open>None\<close>; the payload is not
  returned to the caller.
\<close>

theorem available_poll_returns_payload_counterexample:
  "map_option fst (wait_for_statement_completion (sim_env parse_plain always_ok 0) (helper [] 25)
      ''session'' 0 start_state) = Some (Inr None)
   \<and> map_option fst (wait_for_statement_completion (sim_env parse_plain always_ok 0) (helper [] 25)
      ''session'' 0 start_state) \<noteq> Some (Inr (Some ok_payload))"
  by (simp add: wait_for_statement_completion_def wait_loop.simps loop_body_def
        sim_env_def helper_def start_state_def sim_start_def
        always_ok_def available_def ok_payload_def dict_get_def lower_ok)

section \<open>Properties of the package scanner\<close>

lemma constant_values_comprehension:
  "constant_values es = [c. Constant c \<leftarrow> es]"
  by (induction es rule: constant_values.induct) simp_all

lemma scan_keywords_skip:
  "\<forall>k\<in>set kws1. \<not> packages_list_keyword k \<Longrightarrow> scan_keywords (kws1 @ kws) = scan_keywords kws"
proof (induction kws1)
  case Nil
  then show ?case by simp
next
  case (Cons k kws1)
  then show ?case by (cases k) (auto split: option.splits)
qed

lemma scan_keywords_none:
  "\<forall>k\<in>set kws. \<not> packages_list_keyword k \<Longrightarrow> scan_keywords kws = None"
  using scan_keywords_skip [of kws "[]"] by simp

lemma scan_keywords_hit:
  "scan_keywords (Keyword (Some ''packages'') (PyList es) # kws) = Some (constant_values es)"
  by simp

lemma scan_nodes_skip:
  "\<forall>m\<in>set pre. packages_at m = None \<Longrightarrow> scan_nodes (pre @ ns) = scan_nodes ns"
  by (induction pre) (auto simp: packages_at_def split: option.splits)

lemma scan_nodes_none:
  "\<forall>m\<in>set ns. packages_at m = None \<Longrightarrow> scan_nodes ns = None"
  using scan_nodes_skip [of ns "[]"] by simp

lemma scan_nodes_hit:
  "packages_at n = Some r \<Longrightarrow> scan_nodes (n # post) = Some r"
  by (auto simp: packages_at_def split: option.splits)

lemma extract_parsed:
  "parse src = Inr tree \<Longrightarrow>
     extract_packages_from_code parse src =
       Inr (case scan_nodes (walk tree) of None \<Rightarrow> [] | Some r \<Rightarrow> r)"
  by (simp add: extract_packages_from_code_def extract_try_body_def split: option.splits)

text \<open>
  Claim C9. Let the first node of the walk that is a \<open>dbt.config\<close> call with a
  literal-list \<open>packages\<close> keyword be \<open>n\<close>, and let \<open>elts\<close> be the elements of
  the first such keyword of \<open>n\<close>. Then the result is the values of the elements
  of \<open>elts\<close> that are constants, in order: elements that are not constants
  are dropped, constants that are not strings are kept. The nodes after \<open>n\<close>
  in the walk and the keywords after that one do not matter.
\<close>

theorem first_literal_list_wins:
  assumes parsed: "parse src = Inr tree"
    and order: "walk tree = pre @ n # post"
    and earlier: "\<forall>m\<in>set pre. packages_at m = None"
    and call: "config_call_keywords n =
                 Some (kws1 @ Keyword (Some ''packages'') (PyList elts) # kws2)"
    and before: "\<forall>k\<in>set kws1. \<not> packages_list_keyword k"
  shows "extract_packages_from_code parse src = Inr [c. Constant c \<leftarrow> elts]"
proof -
  have "packages_at n = Some (constant_values elts)"
    using call scan_keywords_skip [OF before] by (simp add: packages_at_def)
  then have "scan_nodes (walk tree) = Some (constant_values elts)"
    using order scan_nodes_skip [OF earlier] scan_nodes_hit by simp
  then show ?thesis
    using extract_parsed [of parse src tree] parsed by (simp add: constant_values_comprehension)
qed


text \<open>
  Claim C8. When the tree has exactly one \<open>dbt.config\<close> call and none of its
  keywords is \<open>packages\<close> with a literal list as value (the value is, say, a
  variable), the result is the empty list.
\<close>

theorem non_literal_packages_ignored:
  assumes parsed: "parse src = Inr tree"
    and only: "filter (\<lambda>m. config_call_keywords m \<noteq> None) (walk tree) = [n]"
    and call: "config_call_keywords n = Some kws"
    and nonlit: "\<forall>k\<in>set kws. \<not> packages_list_keyword k"
  shows "extract_packages_from_code parse src = Inr []"
proof -
  have "packages_at m = None" if "m \<in> set (walk tree)" for m
  proof (cases "config_call_keywords m")
    case None
    then show ?thesis by (simp add: packages_at_def)
  next
    case (Some kws')
    with that have "m \<in> set (filter (\<lambda>m. config_call_keywords m \<noteq> None) (walk tree))"
      by simp
    with only have "m = n" by simp
    with call nonlit show ?thesis
      by (simp add: packages_at_def scan_keywords_none)
  qed
  then have "scan_nodes (walk tree) = None"
    by (simp add: scan_nodes_none)
  then show ?thesis
    using extract_parsed [of parse src tree] parsed by simp
qed

text \<open>
  Claim C5, as amended. When the first \<open>dbt.config\<close> call with a literal-list
  \<open>packages\<close> keyword in the order of the walk is
  \<open>dbt.config(packages=["a", "b"])\<close>, the result is \<open>["a", "b"]\<close>. When no node
  of the tree is a \<open>dbt.config\<close> call with such a keyword, and when the parser
  raises (a syntax error, an input that is not a text), the result is the
  empty list. \<open>Inr\<close> everywhere: no exception leaves the function.
\<close>

theorem extract_packages_cases:
  "(parse src = Inr tree \<and> walk tree = pre @ config_call (str_list [a, b]) # post
      \<and> (\<forall>m\<in>set pre. packages_at m = None)
      \<longrightarrow> extract_packages_from_code parse src = Inr [CStr a, CStr b])
   \<and> (parse src = Inr tree \<and> (\<forall>m\<in>set (walk tree). packages_at m = None)
      \<longrightarrow> extract_packages_from_code parse src = Inr [])
   \<and> (parse src = Inl e \<longrightarrow> extract_packages_from_code parse src = Inr [])"
proof (intro conjI impI)
  assume h: "parse src = Inr tree \<and> walk tree = pre @ config_call (str_list [a, b]) # post
      \<and> (\<forall>m\<in>set pre. packages_at m = None)"
  have "packages_at (config_call (str_list [a, b])) = Some [CStr a, CStr b]"
    by (simp add: packages_at_def config_call_def str_list_def)
  then have "scan_nodes (walk tree) = Some [CStr a, CStr b]"
    using h scan_nodes_skip [of pre] scan_nodes_hit by simp
  then show "extract_packages_from_code parse src = Inr [CStr a, CStr b]"
    using h extract_parsed [of parse src tree] by simp
next
  assume h: "parse src = Inr tree \<and> (\<forall>m\<in>set (walk tree). packages_at m = None)"
  then have "scan_nodes (walk tree) = None" by (simp add: scan_nodes_none)
  then show "extract_packages_from_code parse src = Inr []"
    using h extract_parsed [of parse src tree] by simp
next
  assume "parse src = Inl e"
  then show "extract_packages_from_code parse src = Inr []"
    by (simp add: extract_packages_from_code_def extract_try_body_def)
qed


lemmas concrete_ast_defs =
  walk_def one_call_def two_calls_def variable_call_def mixed_calls_def module_of_def
  config_call_def str_list_def parse_as_def parse_fails_def packages_at_def

text \<open>
  Witness for C5: the module with the one call, the module whose call passes a
  variable, a text that does not parse and an input that is not a text.
\<close>

theorem extract_packages_cases_witness:
  "extract_packages_from_code (parse_as one_call) (Text one_call_text) = Inr [CStr ''a'', CStr ''b'']
   \<and> extract_packages_from_code (parse_as variable_call) (Text variable_call_text) = Inr []
   \<and> extract_packages_from_code parse_fails (Text ''dbt.config('') = Inr []
   \<and> extract_packages_from_code (parse_as one_call) NonText = Inr []"
  using extract_packages_cases
      [of "parse_as one_call" "Text one_call_text" one_call "take 2 (walk one_call)" "''a''" "''b''"
          "drop 3 (walk one_call)"]
    extract_packages_cases
      [of "parse_as variable_call" "Text variable_call_text" variable_call]
    extract_packages_cases
      [of parse_fails "Text ''dbt.config(''" _ _ _ _ _ "OtherException ''SyntaxError''"]
    extract_packages_cases
      [of "parse_as one_call" NonText _ _ _ _ _ "OtherException ''TypeError''"]
  by (simp add: concrete_ast_defs)

text \<open>
  Counterexample to C5 as stated: the text
  \<open>dbt.config(packages=["x"])\<close>, newline, \<open>dbt.config(packages=["a", "b"])\<close>
  contains the call, and the result is \<open>["x"]\<close>.
\<close>

theorem first_call_shadows_counterexample:
  "config_call (str_list [''a'', ''b'']) \<in> set (walk two_calls)
   \<and> extract_packages_from_code (parse_as two_calls) (Text two_calls_text) = Inr [CStr ''x'']
   \<and> extract_packages_from_code (parse_as two_calls) (Text two_calls_text)
       \<noteq> Inr [CStr ''a'', CStr ''b'']"
  by (simp add: concrete_ast_defs extract_packages_from_code_def extract_try_body_def)

text \<open>Witness for C8: \<open>dbt.config(packages=pkgs)\<close>.\<close>

theorem non_literal_packages_ignored_witness:
  "extract_packages_from_code (parse_as variable_call) (Text variable_call_text) = Inr []"
  using non_literal_packages_ignored
      [of "parse_as variable_call" "Text variable_call_text" variable_call
          "config_call (Name ''pkgs'')" "[Keyword (Some ''packages'') (Name ''pkgs'')]"]
  by (simp add: concrete_ast_defs)

text \<open>
  Witness for C9: \<open>dbt.config(packages=["a", 1, pkg, None])\<close> followed by
  \<open>dbt.config(packages=["z"])\<close>.
\<close>

theorem first_literal_list_wins_witness:
  "extract_packages_from_code (parse_as mixed_calls) (Text mixed_calls_text)
     = Inr [CStr ''a'', CInt 1, CNone]"
  using first_literal_list_wins
      [of "parse_as mixed_calls" "Text mixed_calls_text" mixed_calls
          "take 3 (walk mixed_calls)" 
          "config_call (PyList [Constant (CStr ''a''), Constant (CInt 1), Name ''pkg'', Constant CNone])"
          "drop 4 (walk mixed_calls)" "[]"
          "[Constant (CStr ''a''), Constant (CInt 1), Name ''pkg'', Constant CNone]" "[]"]
  by (simp add: concrete_ast_defs)

section \<open>Properties of the package merge\<close>

lemma list_ex_py_eq: "list_ex (\<lambda>k. py_eq k x) keys \<longleftrightarrow> py_key x \<in> py_key ` set keys"
  by (simp add: list_ex_iff py_eq_def image_iff) metis

lemma fromkeys_acc_subset: "set (fromkeys_acc keys xs) \<subseteq> set keys \<union> set xs"
proof (induction xs arbitrary: keys)
  case Nil
  then show ?case by simp
next
  case (Cons x xs)
  have "set (fromkeys_acc (if list_ex (\<lambda>k. py_eq k x) keys then keys else keys @ [x]) xs)
          \<subseteq> set (if list_ex (\<lambda>k. py_eq k x) keys then keys else keys @ [x]) \<union> set xs"
    by (rule Cons.IH)
  then show ?case by (auto split: if_splits)
qed

lemma fromkeys_acc_keys:
  "py_key ` set (fromkeys_acc keys xs) = py_key ` (set keys \<union> set xs)"
proof (induction xs arbitrary: keys)
  case Nil
  then show ?case by simp
next
  case (Cons x xs)
  then show ?case by (auto simp: list_ex_py_eq)
qed

lemma fromkeys_acc_distinct:
  "distinct (map py_key keys) \<Longrightarrow> distinct (map py_key (fromkeys_acc keys xs))"
proof (induction xs arbitrary: keys)
  case Nil
  then show ?case by simp
next
  case (Cons x xs)
  then show ?case by (simp add: list_ex_py_eq)
qed

lemma dict_fromkeys_keys: "py_key ` set (dict_fromkeys xs) = py_key ` set xs"
  using fromkeys_acc_keys [of "[]" xs] by (simp add: dict_fromkeys_def)

lemma dict_fromkeys_distinct: "distinct (map py_key (dict_fromkeys xs))"
  using fromkeys_acc_distinct [of "[]" xs] by (simp add: dict_fromkeys_def)

lemma dict_fromkeys_subset: "set (dict_fromkeys xs) \<subseteq> set xs"
  using fromkeys_acc_subset [of "[]" xs] by (simp add: dict_fromkeys_def)

lemma set_order_perm:
  assumes "\<forall>keys. mset (set_order env keys) = mset keys"
  shows "set (set_order env keys) = set keys"
    and "distinct (map py_key (set_order env keys)) = distinct (map py_key keys)"
proof -
  have m: "mset (set_order env keys) = mset keys" using assms by simp
  show "set (set_order env keys) = set keys" using m by (rule mset_eq_setD)
  have "mset (map py_key (set_order env keys)) = mset (map py_key keys)"
    using m by simp
  then show "distinct (map py_key (set_order env keys)) = distinct (map py_key keys)"
    by (rule mset_eq_imp_distinct_iff)
qed

text \<open>The algebra of the merge, for any two lists.\<close>

lemma merge_packages_algebra:
  assumes perm: "\<forall>keys. mset (set_order env keys) = mset keys"
  shows "py_key ` set (merge_packages env declared scanned) = py_key ` (set declared \<union> set scanned)
       \<and> set (merge_packages env declared scanned) \<subseteq> set declared \<union> set scanned
       \<and> distinct (map py_key (merge_packages env declared scanned))
       \<and> py_key ` set (merge_packages env declared scanned)
           = py_key ` set (merge_packages env scanned declared)
       \<and> py_key ` set (merge_packages env declared declared) = py_key ` set declared
       \<and> set (merge_packages env [CStr a, CStr b] [CStr b, CStr c]) = {CStr a, CStr b, CStr c}"
proof -
  have keys: "py_key ` set (merge_packages env xs ys) = py_key ` (set xs \<union> set ys)" for xs ys
    using set_order_perm(1) [OF perm] dict_fromkeys_keys [of "xs @ ys"]
    by (simp add: merge_packages_def)
  have sub: "set (merge_packages env xs ys) \<subseteq> set xs \<union> set ys" for xs ys
    using set_order_perm(1) [OF perm] dict_fromkeys_subset [of "xs @ ys"]
    by (simp add: merge_packages_def)
  have dist: "distinct (map py_key (merge_packages env declared scanned))"
    using set_order_perm(2) [OF perm] dict_fromkeys_distinct
    by (simp add: merge_packages_def)
  have comm: "py_key ` set (merge_packages env declared scanned)
           = py_key ` set (merge_packages env scanned declared)"
    by (simp add: keys Un_commute)
  have idem: "py_key ` set (merge_packages env declared declared) = py_key ` set declared"
    by (simp add: keys)
  let ?m = "merge_packages env [CStr a, CStr b] [CStr b, CStr c]"
  have id: "py_key x = x" if "x \<in> {CStr a, CStr b, CStr c}" for x
    using that by auto
  have s1: "set ?m \<subseteq> {CStr a, CStr b, CStr c}"
    using sub [of "[CStr a, CStr b]" "[CStr b, CStr c]"] by auto
  have "py_key ` set ?m = {CStr a, CStr b, CStr c}"
    using keys [of "[CStr a, CStr b]" "[CStr b, CStr c]"] by auto
  moreover have "py_key ` set ?m = set ?m"
  proof -
    have "py_key x = x" if "x \<in> set ?m" for x
      using that s1 id by blast
    then show ?thesis by simp
  qed
  ultimately have ex: "set ?m = {CStr a, CStr b, CStr c}" by simp
  show ?thesis
    using keys [of declared scanned] sub [of declared scanned] dist comm idem ex
    by blast
qed

section \<open>Termination of the poll loop\<close>

lemma loop_body_running:
  assumes "non_terminal (fst (client_get_statement env sid i (world s)))"
  shows "loop_body env self sid i s =
           Sleeps \<lparr>world = time_sleep env (polling_interval self)
                             (snd (client_get_statement env sid i (world s))),
                   trace = trace s @ [EvGetStatement sid i, EvSleep (polling_interval self)]\<rparr>"
  using assms
  by (cases "client_get_statement env sid i (world s)")
     (auto simp: loop_body_def non_terminal_def Let_def split: sum.splits option.splits)

lemma ceiling_step:
  fixes x y d :: real
  assumes "0 < d" "0 < x" "y \<le> x - d"
  shows "nat \<lceil>y / d\<rceil> < nat \<lceil>x / d\<rceil>"
proof -
  have "y / d \<le> x / d - 1"
    using assms by (simp add: field_simps)
  then have "\<lceil>y / d\<rceil> \<le> \<lceil>x / d - 1\<rceil>" by (rule ceiling_mono)
  then have "\<lceil>y / d\<rceil> \<le> \<lceil>x / d\<rceil> - 1" by simp
  moreover have "0 < \<lceil>x / d\<rceil>" using assms by simp
  ultimately show ?thesis by linarith
qed

lemma wait_loop_times_out:
  assumes running: "\<forall>k s. fetch_made env self sid i start s0 k s \<longrightarrow>
                      non_terminal (fst (client_get_statement env sid i (world s)))"
    and fetch_clock: "\<forall>k s. fetch_made env self sid i start s0 k s \<longrightarrow>
                      time_time env (world s)
                        \<le> time_time env (snd (client_get_statement env sid i (world s)))"
    and sleep_clock: "\<forall>k s. fetch_made env self sid i start s0 k s \<longrightarrow>
                      time_time env (snd (client_get_statement env sid i (world s)))
                          + polling_interval self
                        \<le> time_time env (time_sleep env (polling_interval self)
                                            (snd (client_get_statement env sid i (world s))))"
    and interval: "0 < polling_interval self"
    and head: "loop_head_at env self sid i start s0 k = Some s"
  shows "\<exists>s'. wait_loop env self sid i start s =
                Some (Inl (DbtRuntimeError ''Timed out waiting for statement to complete''), s')
            \<and> timeout self \<le> time_time env (world s') - start
            \<and> ((\<forall>k s. fetch_made env self sid i start s0 k s \<longrightarrow>
                      time_time env (snd (client_get_statement env sid i (world s)))
                        = time_time env (world s)
                    \<and> time_time env (time_sleep env (polling_interval self)
                                        (snd (client_get_statement env sid i (world s))))
                        = time_time env (snd (client_get_statement env sid i (world s)))
                            + polling_interval self)
                 \<and> time_time env (world s) - start < timeout self + polling_interval self
               \<longrightarrow> time_time env (world s') - start < timeout self + polling_interval self)"
  using head
proof (induction "nat \<lceil>(timeout self - (time_time env (world s) - start)) / polling_interval self\<rceil>"
        arbitrary: s k rule: less_induct)
  case less
  note here = \<open>loop_head_at env self sid i start s0 k = Some s\<close>
  show ?case
  proof (cases "time_time env (world s) - start < timeout self")
    case False
    then have "wait_loop env self sid i start s =
                 Some (Inl (DbtRuntimeError ''Timed out waiting for statement to complete''), s)"
      by (subst wait_loop.simps) simp
    with False show ?thesis by auto
  next
    case True
    with here have made: "fetch_made env self sid i start s0 k s"
      by (simp add: fetch_made_def)
    define w1 where "w1 = snd (client_get_statement env sid i (world s))"
    define s2 where "s2 = \<lparr>world = time_sleep env (polling_interval self) w1,
                   trace = trace s @ [EvGetStatement sid i, EvSleep (polling_interval self)]\<rparr>"
    have body: "loop_body env self sid i s = Sleeps s2"
      using loop_body_running [of env sid i s self] running made by (simp add: s2_def w1_def)
    have next_head: "loop_head_at env self sid i start s0 (Suc k) = Some s2"
      using here True body by simp
    have unfold: "wait_loop env self sid i start s = wait_loop env self sid i start s2"
      using True body by (subst wait_loop.simps) simp
    have c1: "time_time env (world s) \<le> time_time env w1"
      using fetch_clock made by (simp add: w1_def)
    have c2: "time_time env w1 + polling_interval self \<le> time_time env (world s2)"
      using sleep_clock made by (simp add: s2_def w1_def)
    have "timeout self - (time_time env (world s2) - start)
            \<le> (timeout self - (time_time env (world s) - start)) - polling_interval self"
      using c1 c2 by simp
    then have "nat \<lceil>(timeout self - (time_time env (world s2) - start)) / polling_interval self\<rceil>
             < nat \<lceil>(timeout self - (time_time env (world s) - start)) / polling_interval self\<rceil>"
      using interval True by (intro ceiling_step) simp_all
    from less(1) [OF this next_head] obtain s' where
      r: "wait_loop env self sid i start s2 =
            Some (Inl (DbtRuntimeError ''Timed out waiting for statement to complete''), s')"
      and lo: "timeout self \<le> time_time env (world s') - start"
      and hi: "(\<forall>k s. fetch_made env self sid i start s0 k s \<longrightarrow>
                      time_time env (snd (client_get_statement env sid i (world s)))
                        = time_time env (world s)
                    \<and> time_time env (time_sleep env (polling_interval self)
                                        (snd (client_get_statement env sid i (world s))))
                        = time_time env (snd (client_get_statement env sid i (world s)))
                            + polling_interval self)
                 \<and> time_time env (world s2) - start < timeout self + polling_interval self
               \<longrightarrow> time_time env (world s') - start < timeout self + polling_interval self"
      by blast
    have "time_time env (world s') - start < timeout self + polling_interval self"
      if ex: "\<forall>k s. fetch_made env self sid i start s0 k s \<longrightarrow>
                      time_time env (snd (client_get_statement env sid i (world s)))
                        = time_time env (world s)
                    \<and> time_time env (time_sleep env (polling_interval self)
                                        (snd (client_get_statement env sid i (world s))))
                        = time_time env (snd (client_get_statement env sid i (world s)))
                            + polling_interval self"
    proof -
      have "time_time env (world s2) = time_time env (world s) + polling_interval self"
        using ex made by (simp add: s2_def w1_def)
      with True have "time_time env (world s2) - start < timeout self + polling_interval self"
        by simp
      with hi ex show ?thesis by blast
    qed
    with r lo unfold show ?thesis by auto
  qed
qed

text \<open>
  Claim C3, as amended. Suppose that at every status fetch the loop makes, the
  fetch returns a state that is not terminal, the clock does not go back
  during the fetch, and it advances by at least the polling interval, which
  is positive, during the sleep that follows. Then
  \<open>_wait_for_statement_completion\<close> does not loop forever: it raises the timeout
  error, at a moment when the time elapsed since the start of the loop is at
  least the timeout. When moreover each of these fetches takes no time, each of
  these sleeps lasts exactly the polling interval and the timeout is not
  negative, the error is raised less than one polling interval past the
  timeout. Nothing is assumed of fetches the loop does not make: the
  statement may well finish later.
\<close>

theorem polling_times_out:
  assumes running:
      "\<forall>k s. fetch_made env self session_id statement_id (time_time env (world s0)) s0 k s \<longrightarrow>
          non_terminal (fst (client_get_statement env session_id statement_id (world s)))"
    and fetch_clock:
      "\<forall>k s. fetch_made env self session_id statement_id (time_time env (world s0)) s0 k s \<longrightarrow>
          time_time env (world s)
            \<le> time_time env (snd (client_get_statement env session_id statement_id (world s)))"
    and sleep_clock:
      "\<forall>k s. fetch_made env self session_id statement_id (time_time env (world s0)) s0 k s \<longrightarrow>
          time_time env (snd (client_get_statement env session_id statement_id (world s)))
              + polling_interval self
            \<le> time_time env (time_sleep env (polling_interval self)
                  (snd (client_get_statement env session_id statement_id (world s))))"
    and interval: "0 < polling_interval self"
  shows "\<exists>s'. wait_for_statement_completion env self session_id statement_id s0 =
                Some (Inl (DbtRuntimeError ''Timed out waiting for statement to complete''), s')
            \<and> timeout self \<le> time_time env (world s') - time_time env (world s0)
            \<and> ((\<forall>k s. fetch_made env self session_id statement_id (time_time env (world s0)) s0 k s
                    \<longrightarrow>
                      time_time env (snd (client_get_statement env session_id statement_id (world s)))
                        = time_time env (world s)
                    \<and> time_time env (time_sleep env (polling_interval self)
                          (snd (client_get_statement env session_id statement_id (world s))))
                        = time_time env
                            (snd (client_get_statement env session_id statement_id (world s)))
                            + polling_interval self)
                 \<and> 0 \<le> timeout self
               \<longrightarrow> time_time env (world s') - time_time env (world s0)
                     < timeout self + polling_interval self)"
proof -
  have head: "loop_head_at env self session_id statement_id (time_time env (world s0)) s0 0
                = Some s0"
    by simp
  from wait_loop_times_out [OF running fetch_clock sleep_clock interval head]
  obtain s' where
    r: "wait_loop env self session_id statement_id (time_time env (world s0)) s0 =
            Some (Inl (DbtRuntimeError ''Timed out waiting for statement to complete''), s')"
    and lo: "timeout self \<le> time_time env (world s') - time_time env (world s0)"
    and hi: "(\<forall>k s. fetch_made env self session_id statement_id (time_time env (world s0)) s0 k s
                    \<longrightarrow>
                      time_time env (snd (client_get_statement env session_id statement_id (world s)))
                        = time_time env (world s)
                    \<and> time_time env (time_sleep env (polling_interval self)
                          (snd (client_get_statement env session_id statement_id (world s))))
                        = time_time env
                            (snd (client_get_statement env session_id statement_id (world s)))
                            + polling_interval self)
                 \<and> time_time env (world s0) - time_time env (world s0)
                      < timeout self + polling_interval self
               \<longrightarrow> time_time env (world s') - time_time env (world s0)
                     < timeout self + polling_interval self"
    by blast
  have "0 \<le> timeout self \<Longrightarrow>
          time_time env (world s0) - time_time env (world s0) < timeout self + polling_interval self"
    using interval by simp
  with r lo hi show ?thesis
    unfolding wait_for_statement_completion_def by blast
qed

text \<open>
  In the simulated session with a polling interval of ten seconds and fetches
  that take no time, the \<open>k\<close>-th loop head is reached after \<open>k\<close> fetches, at
  time \<open>10 k\<close>.
\<close>

lemma late_loop_heads:
  "loop_head_at (sim_env parse_plain finishes_late 0) (helper [] 25) ''session'' 0 0
       start_state k = Some s
   \<Longrightarrow> clock (world s) = 10 * real k \<and> fetches (world s) = k"
proof (induction k arbitrary: s)
  case 0
  then show ?case by (auto simp: start_state_def sim_start_def)
next
  case (Suc k)
  from Suc.prems obtain p where
    prev: "loop_head_at (sim_env parse_plain finishes_late 0) (helper [] 25) ''session'' 0 0
             start_state k = Some p"
    and body: "loop_body (sim_env parse_plain finishes_late 0) (helper [] 25) ''session'' 0 p
                 = Sleeps s"
    by (auto split: option.splits if_splits pass.splits)
  from Suc.IH [OF prev] have "clock (world p) = 10 * real k" "fetches (world p) = k"
    by simp_all
  with body show ?case
    by (auto simp: loop_body_def sim_env_def helper_def Let_def finishes_late_def in_state_def
          available_def split: if_splits)
qed

text \<open>
  Witness for C3: a statement that stays \<open>RUNNING\<close> for a hundred fetches and
  would then succeed, fetches that take no time, timeout 25 and polling
  interval 10. The loop gives up after three fetches.
\<close>

theorem polling_times_out_witness:
  "\<exists>s'. wait_for_statement_completion (sim_env parse_plain finishes_late 0) (helper [] 25)
           ''session'' 0 start_state =
           Some (Inl (DbtRuntimeError ''Timed out waiting for statement to complete''), s')
        \<and> 25 \<le> clock (world s') \<and> clock (world s') < 35"
proof -
  let ?env = "sim_env parse_plain finishes_late 0"
  let ?self = "helper [] 25"
  have start: "time_time ?env (world start_state) = 0"
    by (simp add: sim_env_def start_state_def sim_start_def)
  have few: "fetches (world s) < 3"
    if "fetch_made ?env ?self ''session'' 0 0 start_state k s" for k s
  proof -
    from that have h: "loop_head_at ?env ?self ''session'' 0 0 start_state k = Some s"
      and t: "clock (world s) < 25"
      by (simp_all add: fetch_made_def sim_env_def helper_def)
    from late_loop_heads [OF h] t have "10 * real k < 25" "fetches (world s) = k" by simp_all
    then show ?thesis by simp
  qed
  have running: "\<forall>k s. fetch_made ?env ?self ''session'' 0 (time_time ?env (world start_state))
                          start_state k s \<longrightarrow>
          non_terminal (fst (client_get_statement ?env ''session'' 0 (world s)))"
    using few unfolding start
    by (fastforce simp: sim_env_def finishes_late_def in_state_def non_terminal_def)
  have fetch_clock: "\<forall>k s. fetch_made ?env ?self ''session'' 0 (time_time ?env (world start_state))
                          start_state k s \<longrightarrow>
          time_time ?env (world s)
            \<le> time_time ?env (snd (client_get_statement ?env ''session'' 0 (world s)))"
    by (simp add: sim_env_def)
  have sleep_clock: "\<forall>k s. fetch_made ?env ?self ''session'' 0 (time_time ?env (world start_state))
                          start_state k s \<longrightarrow>
          time_time ?env (snd (client_get_statement ?env ''session'' 0 (world s)))
              + polling_interval ?self
            \<le> time_time ?env (time_sleep ?env (polling_interval ?self)
                  (snd (client_get_statement ?env ''session'' 0 (world s))))"
    by (simp add: sim_env_def)
  have interval: "0 < polling_interval ?self"
    by (simp add: helper_def)
  from polling_times_out [OF running fetch_clock sleep_clock interval]
  show ?thesis
    by (simp add: sim_env_def helper_def start_state_def sim_start_def)
qed

text \<open>
  Counterexample to C3 as stated: a statement that stays \<open>RUNNING\<close>, with timeout
  5, polling interval 10 and fetches that take 100 seconds. The timeout is
  tested at the loop head only, so the error is raised 110 seconds after the
  start of the loop.
\<close>

theorem slow_fetch_counterexample:
  "wait_for_statement_completion (sim_env parse_plain always_running 100) (helper [] 5)
      ''session'' 0 start_state =
     Some (Inl (DbtRuntimeError ''Timed out waiting for statement to complete''),
           \<lparr>world = \<lparr>clock = 110, submitted = 0, fetches = 1, closes = 0\<rparr>,
            trace = [EvGetStatement ''session'' 0, EvSleep 10]\<rparr>)
   \<and> non_terminal (Inr \<lparr>response_Statement = Some (always_running 0 0)\<rparr>)
   \<and> \<not> (110 - clock (world start_state)
          \<le> timeout (helper [] 5) + polling_interval (helper [] 5))"
  by (simp add: wait_for_statement_completion_def wait_loop.simps loop_body_def
        sim_env_def helper_def start_state_def sim_start_def always_running_def in_state_def
        non_terminal_def)

section \<open>Properties of \<open>submit\<close>\<close>

text \<open>
  What the loop returns is what one pass from a reachable loop head returns,
  or the timeout error raised at that loop head.
\<close>

lemma wait_loop_invariant:
  assumes run: "wait_loop env self sid i start s = Some out"
    and init: "I s"
    and step: "\<And>s1 s2. I s1 \<Longrightarrow> time_time env (world s1) - start < timeout self \<Longrightarrow>
                 loop_body env self sid i s1 = Sleeps s2 \<Longrightarrow> I s2"
  shows "\<exists>s1. I s1 \<and>
           (if time_time env (world s1) - start < timeout self
            then loop_body env self sid i s1 = Leaves out
            else out = (Inl (DbtRuntimeError ''Timed out waiting for statement to complete''), s1))"
proof -
  let ?Q = "\<lambda>out'. \<exists>s1. I s1 \<and>
           (if time_time env (world s1) - start < timeout self
            then loop_body env self sid i s1 = Leaves out'
            else out' = (Inl (DbtRuntimeError ''Timed out waiting for statement to complete''), s1))"
  let ?P = "\<lambda>env' self' sid' i' start' s0 out'.
     env' = env \<longrightarrow> self' = self \<longrightarrow> sid' = sid \<longrightarrow> i' = i \<longrightarrow> start' = start \<longrightarrow> I s0
       \<longrightarrow> ?Q out'"
  have "?P env self sid i start s out"
  proof (rule wait_loop.raw_induct [where P = ?P, OF _ run], goal_cases)
    case (1 wl env' self' sid' i' start' s0 out')
    show ?case
    proof (intro impI)
      assume eqs: "env' = env" "self' = self" "sid' = sid" "i' = i" "start' = start"
        and I0: "I s0"
      show "?Q out'"
      proof (cases "time_time env (world s0) - start < timeout self")
        case False
        with 1(2) eqs
        have "out' = (Inl (DbtRuntimeError ''Timed out waiting for statement to complete''), s0)"
          by simp
        with False I0 show ?thesis by (intro exI [of _ s0]) simp
      next
        case True
        show ?thesis
        proof (cases "loop_body env self sid i s0")
          case (Leaves o1)
          with 1(2) eqs True have "o1 = out'" by simp
          with Leaves True I0 show ?thesis by (intro exI [of _ s0]) simp
        next
          case (Sleeps s2)
          with 1(2) eqs True have "wl env self sid i start s2 = Some out'" by simp
          moreover have "I s2" using step [OF I0 True Sleeps] .
          ultimately show ?thesis using 1(1) [of env self sid i start s2 out'] by simp
        qed
      qed
    qed
  qed
  with init show ?thesis by simp
qed

lemma submitted_codes_append:
  "submitted_codes (xs @ ys) = submitted_codes xs @ submitted_codes ys"
  by (induction xs rule: submitted_codes.induct) simp_all

text \<open>A pass of the loop submits nothing and closes nothing.\<close>

lemma loop_body_leaves_calls:
  "loop_body env self sid i s = Leaves (r, s') \<Longrightarrow> same_calls (trace s) (trace s')"
  by (auto simp: loop_body_def Let_def same_calls_def submitted_codes_append
           split: prod.splits sum.splits option.splits if_splits)

lemma loop_body_sleeps_calls:
  "loop_body env self sid i s = Sleeps s' \<Longrightarrow> same_calls (trace s) (trace s')"
  by (auto simp: loop_body_def Let_def same_calls_def submitted_codes_append
           split: prod.splits sum.splits option.splits if_splits)

lemma wait_calls:
  assumes "wait_for_statement_completion env self sid i s = Some (r, s')"
  shows "same_calls (trace s) (trace s')"
proof -
  have run: "wait_loop env self sid i (time_time env (world s)) s = Some (r, s')"
    using assms by (simp add: wait_for_statement_completion_def)
  have "\<exists>s1. same_calls (trace s) (trace s1) \<and>
           (if time_time env (world s1) - time_time env (world s) < timeout self
            then loop_body env self sid i s1 = Leaves (r, s')
            else (r, s') = (Inl (DbtRuntimeError ''Timed out waiting for statement to complete''), s1))"
  proof (rule wait_loop_invariant [OF run, where I = "\<lambda>s1. same_calls (trace s) (trace s1)"])
    show "same_calls (trace s) (trace s)" by (simp add: same_calls_def)
  next
    fix s1 s2
    assume "same_calls (trace s) (trace s1)" "loop_body env self sid i s1 = Sleeps s2"
    then show "same_calls (trace s) (trace s2)"
      using loop_body_sleeps_calls [of env self sid i s1 s2] by (simp add: same_calls_def)
  qed
  then obtain s1 where a: "same_calls (trace s) (trace s1)"
    and b: "if time_time env (world s1) - time_time env (world s) < timeout self
            then loop_body env self sid i s1 = Leaves (r, s')
            else (r, s') = (Inl (DbtRuntimeError ''Timed out waiting for statement to complete''), s1)"
    by blast
  show ?thesis
  proof (cases "time_time env (world s1) - time_time env (world s) < timeout self")
    case True
    with b have "loop_body env self sid i s1 = Leaves (r, s')" by simp
    from loop_body_leaves_calls [OF this] a show ?thesis by (simp add: same_calls_def)
  next
    case False
    with b have "s' = s1" by simp
    with a show ?thesis by simp
  qed
qed

lemma run_statement_trace:
  "run_statement env sid c s = (r, s') \<Longrightarrow> trace s' = trace s @ [EvRunStatement sid c]"
  by (auto simp: run_statement_def Let_def split: prod.splits sum.splits option.splits)

lemma open_connection_trace:
  "open_connection env w = (r, s0) \<Longrightarrow>
     submitted_codes (trace s0) = [] \<and> count_list (trace s0) EvClose = 0"
  by (auto simp: open_connection_def split: prod.splits sum.splits)

lemma extract_returns: "\<exists>r. extract_packages_from_code parse src = Inr r"
  by (simp add: extract_packages_from_code_def split: sum.splits option.splits)

lemma install_packages_calls:
  assumes "install_packages env self sid pkgs s = Some (r, s')"
  shows "count_list (trace s') EvClose = count_list (trace s) EvClose"
proof (cases "run_statement env sid (install_code pkgs) s")
  case (Pair r1 s1)
  note tr = run_statement_trace [OF Pair]
  show ?thesis
  proof (cases r1)
    case (Inl e)
    with Pair assms tr show ?thesis by (auto simp: install_packages_def)
  next
    case (Inr iid)
    with Pair assms obtain v where
      "wait_for_statement_completion env self sid iid s1 = Some (v, s')"
      by (auto simp: install_packages_def split: option.splits sum.splits)
    from wait_calls [OF this] tr show ?thesis by (simp add: same_calls_def)
  qed
qed

lemma submit_try_calls:
  assumes "submit_try env self sid code pkgs s = Some (r, s')"
  shows "count_list (trace s') EvClose = count_list (trace s) EvClose"
proof -
  let ?inst = "if pkgs \<noteq> [] then install_packages env self sid pkgs s else Some (Inr (), s)"
  from assms obtain ri s2 where inst: "?inst = Some (ri, s2)"
    by (cases ?inst) (auto simp: submit_try_def)
  have c2: "count_list (trace s2) EvClose = count_list (trace s) EvClose"
    using inst install_packages_calls [of env self sid pkgs s ri s2] by (auto split: if_splits)
  show ?thesis
  proof (cases ri)
    case (Inl e)
    with assms inst have "s' = s2" by (simp add: submit_try_def)
    with c2 show ?thesis by simp
  next
    case (Inr u)
    obtain r3 s3 where rs: "run_statement env sid code s2 = (r3, s3)"
      by (cases "run_statement env sid code s2")
    note tr = run_statement_trace [OF rs]
    show ?thesis
    proof (cases r3)
      case (Inl e)
      with assms inst Inr rs have "s' = s3" by (simp add: submit_try_def)
      with tr c2 show ?thesis by simp
    next
      case (Inr mid)
      with assms inst \<open>ri = Inr u\<close> rs
      have "wait_for_statement_completion env self sid mid s3 = Some (r, s')"
        by (simp add: submit_try_def)
      from wait_calls [OF this] tr c2 show ?thesis by (simp add: same_calls_def)
    qed
  qed
qed

lemma submit_finally_trace:
  "submit_finally env (rb, sb) = (r, s') \<Longrightarrow> trace s' = trace sb @ [EvClose]"
  by (auto simp: submit_finally_def Let_def split: prod.splits sum.splits)

text \<open>The codes submitted by the install step and by the body of the \<open>try\<close>.\<close>

lemma install_packages_codes:
  assumes "install_packages env self sid pkgs s = Some (r, s')"
  shows "submitted_codes (trace s') = submitted_codes (trace s) @ [install_code pkgs]"
proof (cases "run_statement env sid (install_code pkgs) s")
  case (Pair r1 s1)
  note tr = run_statement_trace [OF Pair]
  show ?thesis
  proof (cases r1)
    case (Inl e)
    with Pair assms tr show ?thesis
      by (auto simp: install_packages_def submitted_codes_append)
  next
    case (Inr iid)
    with Pair assms obtain v where
      "wait_for_statement_completion env self sid iid s1 = Some (v, s')"
      by (auto simp: install_packages_def split: option.splits sum.splits)
    from wait_calls [OF this] tr show ?thesis
      by (simp add: same_calls_def submitted_codes_append)
  qed
qed

lemma submit_try_first_code:
  assumes "submit_try env self sid code pkgs s = Some (r, s')"
  shows "\<exists>rest. submitted_codes (trace s')
           = submitted_codes (trace s) @ (if pkgs = [] then code else install_code pkgs) # rest"
proof -
  let ?inst = "if pkgs \<noteq> [] then install_packages env self sid pkgs s else Some (Inr (), s)"
  from assms obtain ri s2 where inst: "?inst = Some (ri, s2)"
    by (cases ?inst) (auto simp: submit_try_def)
  have c2: "submitted_codes (trace s2)
              = submitted_codes (trace s) @ (if pkgs = [] then [] else [install_code pkgs])"
    using inst install_packages_codes [of env self sid pkgs s ri s2] by (auto split: if_splits)
  show ?thesis
  proof (cases ri)
    case (Inl e)
    with assms inst have s': "s' = s2" by (simp add: submit_try_def)
    from inst Inl have "pkgs \<noteq> []" by (auto split: if_splits)
    with c2 s' show ?thesis by simp
  next
    case (Inr u)
    obtain r3 s3 where rs: "run_statement env sid code s2 = (r3, s3)"
      by (cases "run_statement env sid code s2")
    note tr = run_statement_trace [OF rs]
    have "submitted_codes (trace s') = submitted_codes (trace s3)"
    proof (cases r3)
      case (Inl e)
      with assms inst Inr rs show ?thesis by (simp add: submit_try_def)
    next
      case (Inr mid)
      with assms inst \<open>ri = Inr u\<close> rs
      have "wait_for_statement_completion env self sid mid s3 = Some (r, s')"
        by (simp add: submit_try_def)
      from wait_calls [OF this] show ?thesis by (simp add: same_calls_def)
    qed
    with tr c2 show ?thesis by (simp add: submitted_codes_append)
  qed
qed

text \<open>
  Once the connection is established and the packages are merged, \<open>submit\<close> is
  the body of the \<open>try\<close> followed by the \<open>except\<close> and \<open>finally\<close> clauses.
\<close>

lemma submit_after_setup:
  assumes "open_connection env w = (Inr sid, s0)"
    and "effective_packages env self code = Inr pkgs"
  shows "submit env self code w =
           (case submit_try env self sid code pkgs s0 of
              None \<Rightarrow> None
            | Some body \<Rightarrow> Some (submit_finally env body))"
  using assms by (simp add: submit_def)

lemma submit_finally_world:
  "submit_finally env (rb, sb) = (r, s') \<Longrightarrow> world s' = snd (connection_close env (world sb))"
  by (auto simp: submit_finally_def Let_def split: prod.splits sum.splits)



lemmas sim_run_defs =
  sim_env_def helper_def sim_start_def start_state_def open_connection_def
  effective_packages_def extract_packages_from_code_def extract_try_body_def parse_plain_def
  walk_def merge_packages_def dict_fromkeys_def run_statement_def
  wait_for_statement_completion_def wait_loop.simps loop_body_def
  first_fails_def second_fails_def always_ok_def in_state_def available_def ok_payload_def
  dict_get_def

text \<open>
  Claim C1. When the connection is established, the package list is not empty,
  the install statement is submitted and awaiting it ends in an exception (the
  states \<open>ERROR\<close> and \<open>CANCELLED\<close>, an error payload, and also a timeout or an
  exception of the client), \<open>submit\<close> raises, the last call it makes is \<open>close\<close>
  after the failed wait, and the only code ever handed to \<open>run_statement\<close> is
  the install code: the main statement is never submitted.
\<close>

theorem install_failure_blocks_main:
  assumes conn: "open_connection env w = (Inr session_id, s0)"
    and pk: "effective_packages env self compiled_code = Inr pkgs"
    and some: "pkgs \<noteq> []"
    and sub: "run_statement env session_id (install_code pkgs) s0 = (Inr install_id, s1)"
    and fail: "wait_for_statement_completion env self session_id install_id s1 = Some (Inl e, s2)"
  shows "\<exists>e' s'. submit env self compiled_code w = Some (Inl e', s')
           \<and> trace s' = trace s2 @ [EvClose]
           \<and> submitted_codes (trace s') = [install_code pkgs]"
proof -
  have body: "submit_try env self session_id compiled_code pkgs s0 = Some (Inl e, s2)"
    using some sub fail by (simp add: submit_try_def install_packages_def)
  obtain r s' where fin: "submit_finally env (Inl e, s2) = (r, s')"
    by (cases "submit_finally env (Inl e, s2)")
  then obtain e' where r: "r = Inl e'"
    by (auto simp: submit_finally_def Let_def split: prod.splits sum.splits)
  have tr: "trace s' = trace s2 @ [EvClose]"
    using submit_finally_trace [OF fin] .
  have "submitted_codes (trace s2) = submitted_codes (trace s1)"
    using wait_calls [OF fail] by (simp add: same_calls_def)
  also have "\<dots> = [install_code pkgs]"
    using run_statement_trace [OF sub] open_connection_trace [OF conn]
    by (simp add: submitted_codes_append)
  finally have "submitted_codes (trace s') = [install_code pkgs]"
    using tr by (simp add: submitted_codes_append)
  moreover have "submit env self compiled_code w = Some (Inl e', s')"
    using conn pk body fin r by (simp add: submit_def)
  ultimately show ?thesis using tr by blast
qed

text \<open>
  Witness for C1: the package \<open>pandas\<close> is declared and the install statement
  ends in state \<open>ERROR\<close>.
\<close>

theorem install_failure_blocks_main_witness:
  "\<exists>e' s'. submit (sim_env parse_plain first_fails 0) (helper [CStr ''pandas''] 25) ''print(1)''
              sim_start = Some (Inl e', s')
        \<and> submitted_codes (trace s') = [install_code [CStr ''pandas'']]"
proof -
  let ?env = "sim_env parse_plain first_fails 0"
  let ?self = "helper [CStr ''pandas''] 25"
  let ?install = "install_code [CStr ''pandas'']"
  have conn: "open_connection ?env sim_start =
                (Inr ''session'', \<lparr>world = sim_start, trace = [EvConnect, EvCursor]\<rparr>)"
    by (simp add: sim_run_defs)
  have pk: "effective_packages ?env ?self ''print(1)'' = Inr [CStr ''pandas'']"
    by (simp add: sim_run_defs)
  have sub: "run_statement ?env ''session'' ?install
               \<lparr>world = sim_start, trace = [EvConnect, EvCursor]\<rparr> =
             (Inr 0, \<lparr>world = \<lparr>clock = 0, submitted = 1, fetches = 0, closes = 0\<rparr>,
                      trace = [EvConnect, EvCursor, EvRunStatement ''session'' ?install]\<rparr>)"
    by (simp add: sim_run_defs)
  have fail: "wait_for_statement_completion ?env ?self ''session'' 0
                \<lparr>world = \<lparr>clock = 0, submitted = 1, fetches = 0, closes = 0\<rparr>,
                 trace = [EvConnect, EvCursor, EvRunStatement ''session'' ?install]\<rparr> =
              Some (Inl (DbtRuntimeError ''Statement execution failed with state: ERROR''),
                    \<lparr>world = \<lparr>clock = 0, submitted = 1, fetches = 1, closes = 0\<rparr>,
                     trace = [EvConnect, EvCursor, EvRunStatement ''session'' ?install,
                              EvGetStatement ''session'' 0]\<rparr>)"
    by (simp add: sim_run_defs)
  from install_failure_blocks_main [OF conn pk _ sub fail]
  show ?thesis by blast
qed

text \<open>
  Claim C2, as amended. Take an invocation of \<open>submit\<close> in which the connection
  is established and the packages are merged, so that the \<open>try\<close> is entered.
  When the body of the \<open>try\<close> ends, by returning or by any exception, \<open>submit\<close>
  exits; no call of \<open>close\<close> was made in the body, and \<open>submit\<close> ends in the
  world that \<open>connection.close\<close> returns for the world the body ended in. And
  whenever \<open>submit\<close> exits, \<open>close\<close> has been called exactly once, as the last
  call made.
\<close>

theorem close_exactly_once:
  assumes conn: "open_connection env w = (Inr session_id, s0)"
    and pk: "effective_packages env self compiled_code = Inr pkgs"
  shows "(\<forall>rb sb. submit_try env self session_id compiled_code pkgs s0 = Some (rb, sb) \<longrightarrow>
            (\<exists>r s'. submit env self compiled_code w = Some (r, s')
               \<and> world s' = snd (connection_close env (world sb))
               \<and> trace s' = trace sb @ [EvClose]
               \<and> count_list (trace sb) EvClose = 0))
       \<and> (\<forall>r s'. submit env self compiled_code w = Some (r, s') \<longrightarrow>
            count_list (trace s') EvClose = 1 \<and> last (trace s') = EvClose
            \<and> (\<exists>rb sb. submit_try env self session_id compiled_code pkgs s0 = Some (rb, sb)
                   \<and> world s' = snd (connection_close env (world sb))))"
proof (rule conjI; intro allI impI)
  fix rb sb
  assume body: "submit_try env self session_id compiled_code pkgs s0 = Some (rb, sb)"
  obtain r s' where fin: "submit_finally env (rb, sb) = (r, s')"
    by (cases "submit_finally env (rb, sb)")
  have "submit env self compiled_code w = Some (r, s')"
    using submit_after_setup [OF conn pk] body fin by simp
  moreover have "count_list (trace sb) EvClose = 0"
    using submit_try_calls [OF body] open_connection_trace [OF conn] by simp
  ultimately show "\<exists>r s'. submit env self compiled_code w = Some (r, s')
               \<and> world s' = snd (connection_close env (world sb))
               \<and> trace s' = trace sb @ [EvClose]
               \<and> count_list (trace sb) EvClose = 0"
    using submit_finally_world [OF fin] submit_finally_trace [OF fin] by blast
next
  fix r s'
  assume run: "submit env self compiled_code w = Some (r, s')"
  then obtain rb sb where
    body: "submit_try env self session_id compiled_code pkgs s0 = Some (rb, sb)"
    and fin: "submit_finally env (rb, sb) = (r, s')"
    using submit_after_setup [OF conn pk] by (auto split: option.splits)
  have "count_list (trace sb) EvClose = 0"
    using submit_try_calls [OF body] open_connection_trace [OF conn] by simp
  with submit_finally_trace [OF fin] submit_finally_world [OF fin] body
  show "count_list (trace s') EvClose = 1 \<and> last (trace s') = EvClose
            \<and> (\<exists>rb sb. submit_try env self session_id compiled_code pkgs s0 = Some (rb, sb)
                   \<and> world s' = snd (connection_close env (world sb)))"
    by auto
qed

text \<open>
  Witness for C2: the install statement succeeds at the second fetch and the
  main statement ends in state \<open>CANCELLED\<close>; the simulated world has counted
  one call of \<open>close\<close> when \<open>submit\<close> exits.
\<close>

theorem close_exactly_once_witness:
  "\<exists>r s'. submit (sim_env parse_plain second_fails 0) (helper [CStr ''pandas''] 25) ''print(1)''
             sim_start = Some (r, s')
        \<and> closes (world s') = 1
        \<and> count_list (trace s') EvClose = 1
        \<and> last (trace s') = EvClose"
proof -
  let ?env = "sim_env parse_plain second_fails 0"
  let ?self = "helper [CStr ''pandas''] 25"
  let ?s0 = "\<lparr>world = sim_start, trace = [EvConnect, EvCursor]\<rparr>"
  let ?sb = "\<lparr>world = \<lparr>clock = 10, submitted = 2, fetches = 3, closes = 0\<rparr>,
             trace = [EvConnect, EvCursor,
                      EvRunStatement ''session'' (install_code [CStr ''pandas'']),
                      EvGetStatement ''session'' 0, EvSleep 10, EvGetStatement ''session'' 0,
                      EvRunStatement ''session'' ''print(1)'',
                      EvGetStatement ''session'' 1]\<rparr>"
  have conn: "open_connection ?env sim_start = (Inr ''session'', ?s0)"
    by (simp add: sim_run_defs)
  have pk: "effective_packages ?env ?self ''print(1)'' = Inr [CStr ''pandas'']"
    by (simp add: sim_run_defs)
  have body: "submit_try ?env ?self ''session'' ''print(1)'' [CStr ''pandas''] ?s0 =
                Some (Inl (DbtRuntimeError ''Statement execution failed with state: CANCELLED''),
                      ?sb)"
    by (simp add: submit_try_def install_packages_def sim_run_defs lower_ok)
  from close_exactly_once [OF conn pk] body
  obtain r s' where run: "submit ?env ?self ''print(1)'' sim_start = Some (r, s')"
    and w: "world s' = snd (connection_close ?env (world ?sb))"
    and tr: "trace s' = trace ?sb @ [EvClose]"
    by blast
  from w have "closes (world s') = 1" by (simp add: sim_env_def)
  moreover from close_exactly_once [OF conn pk] run
  have "count_list (trace s') EvClose = 1 \<and> last (trace s') = EvClose" by blast
  ultimately show ?thesis using run by blast
qed

text \<open>
  Counterexample to C2 as stated: two invocations of \<open>submit\<close> that exit without
  any call of \<open>close\<close>. In the first \<open>connection.cursor()\<close> raises; in the second
  the declared packages are a string, and line 74 raises \<open>TypeError\<close> with the
  connection established.
\<close>

theorem close_not_called_counterexample:
  "submit no_session_env (helper [] 25) ''print(1)'' sim_start =
     Some (Inl (OtherException ''no session''),
           \<lparr>world = sim_start, trace = [EvConnect, EvCursor]\<rparr>)
   \<and> submit (sim_env parse_plain always_ok 0) helper_str_packages ''print(1)'' sim_start =
     Some (Inl (OtherException ''TypeError''),
           \<lparr>world = sim_start, trace = [EvConnect, EvCursor]\<rparr>)
   \<and> count_list [EvConnect, EvCursor] EvClose = 0
   \<and> closes sim_start = 0"
  by (simp add: submit_def no_session_env_def helper_str_packages_def sim_run_defs)




section \<open>The packages that \<open>submit\<close> installs\<close>

text \<open>
  Claim C6. Let the helper declare the list \<open>declared\<close> and let the scan of the
  compiled code return \<open>scanned\<close>. Then the package list that \<open>submit\<close>
  computes before the install step holds the union of the two, every package
  once, in whatever order the set is iterated: its keys are the keys of the two
  lists, its elements come from the two lists, and no two of its elements are
  equal as Python values. A helper that declares \<open>scanned\<close> with a code that
  scans to \<open>declared\<close> gets the same set of keys, and when the two lists are
  the same list the keys are those of that list. Declared \<open>["a", "b"]\<close> with
  scanned \<open>["b", "c"]\<close> gives the set \<open>{a, b, c}\<close>. This list is the one
  \<open>submit\<close> acts on: when the connection is established and the body of the
  \<open>try\<close> ends, the first code \<open>submit\<close> has handed to \<open>run_statement\<close> is the
  install code of this list, or the compiled code when the list is empty.
  The iteration order of a set is assumed to be a permutation of its elements.
\<close>

theorem merged_packages_are_the_union:
  assumes perm: "\<forall>keys. mset (set_order env keys) = mset keys"
    and decl: "packages self = DeclaredList declared"
    and scan: "extract_packages_from_code (ast_parse env) (Text compiled_code) = Inr scanned"
  shows "\<exists>pkgs. effective_packages env self compiled_code = Inr pkgs
       \<and> py_key ` set pkgs = py_key ` (set declared \<union> set scanned)
       \<and> set pkgs \<subseteq> set declared \<union> set scanned
       \<and> distinct (map py_key pkgs)
       \<and> (\<forall>self' code'. packages self' = DeclaredList scanned
             \<and> extract_packages_from_code (ast_parse env) (Text code') = Inr declared \<longrightarrow>
             (\<exists>pkgs'. effective_packages env self' code' = Inr pkgs'
                \<and> py_key ` set pkgs' = py_key ` set pkgs))
       \<and> (scanned = declared \<longrightarrow> py_key ` set pkgs = py_key ` set declared)
       \<and> (\<forall>a b c. declared = [CStr a, CStr b] \<and> scanned = [CStr b, CStr c] \<longrightarrow>
             set pkgs = {CStr a, CStr b, CStr c})
       \<and> (\<forall>w session_id s0 rb sb. open_connection env w = (Inr session_id, s0)
             \<and> submit_try env self session_id compiled_code pkgs s0 = Some (rb, sb) \<longrightarrow>
             (\<exists>r s' rest. submit env self compiled_code w = Some (r, s')
                \<and> submitted_codes (trace s')
                    = (if pkgs = [] then compiled_code else install_code pkgs) # rest))"
proof -
  let ?pkgs = "merge_packages env declared scanned"
  have eff: "effective_packages env self compiled_code = Inr ?pkgs"
    using decl scan by (simp add: effective_packages_def)
  note alg = merge_packages_algebra [OF perm]
  have keys: "py_key ` set ?pkgs = py_key ` (set declared \<union> set scanned)"
    by (rule alg [of declared scanned, THEN conjunct1])
  have sub: "set ?pkgs \<subseteq> set declared \<union> set scanned"
    by (rule alg [of declared scanned, THEN conjunct2, THEN conjunct1])
  have dist: "distinct (map py_key ?pkgs)"
    by (rule alg [of declared scanned, THEN conjunct2, THEN conjunct2, THEN conjunct1])
  have comm: "py_key ` set ?pkgs = py_key ` set (merge_packages env scanned declared)"
    by (rule alg [of declared scanned, THEN conjunct2, THEN conjunct2, THEN conjunct2,
          THEN conjunct1])
  have swap: "\<exists>pkgs'. effective_packages env self' code' = Inr pkgs'
                \<and> py_key ` set pkgs' = py_key ` set ?pkgs"
    if "packages self' = DeclaredList scanned"
      "extract_packages_from_code (ast_parse env) (Text code') = Inr declared"
    for self' code'
    using that comm by (simp add: effective_packages_def)
  have idem: "py_key ` set ?pkgs = py_key ` set declared" if "scanned = declared"
    using that keys by simp
  have ex: "set ?pkgs = {CStr a, CStr b, CStr c}"
    if "declared = [CStr a, CStr b]" "scanned = [CStr b, CStr c]" for a b c
    using that
      alg [of declared scanned a b c, THEN conjunct2, THEN conjunct2, THEN conjunct2,
        THEN conjunct2, THEN conjunct2]
    by simp
  have first: "\<exists>r s' rest. submit env self compiled_code w = Some (r, s')
                \<and> submitted_codes (trace s')
                    = (if ?pkgs = [] then compiled_code else install_code ?pkgs) # rest"
    if conn: "open_connection env w = (Inr session_id, s0)"
      and body: "submit_try env self session_id compiled_code ?pkgs s0 = Some (rb, sb)"
    for w session_id s0 rb sb
  proof -
    obtain r s' where fin: "submit_finally env (rb, sb) = (r, s')"
      by (cases "submit_finally env (rb, sb)")
    have run: "submit env self compiled_code w = Some (r, s')"
      using submit_after_setup [OF conn eff] body fin by simp
    from submit_try_first_code [OF body] open_connection_trace [OF conn]
    obtain rest where "submitted_codes (trace sb)
                         = (if ?pkgs = [] then compiled_code else install_code ?pkgs) # rest"
      by auto
    with submit_finally_trace [OF fin]
    have "submitted_codes (trace s')
            = (if ?pkgs = [] then compiled_code else install_code ?pkgs) # rest"
      by (simp add: submitted_codes_append)
    with run show ?thesis by blast
  qed
  show ?thesis
    apply (rule exI [of _ ?pkgs])
    apply (intro conjI allI impI)
    subgoal by (rule eff)
    subgoal by (rule keys)
    subgoal by (rule sub)
    subgoal by (rule dist)
    subgoal for self' code' using swap by blast
    subgoal using idem by blast
    subgoal for a b c using ex by blast
    subgoal for w session_id s0 rb sb using first by blast
    done
qed

text \<open>
  Witness for C6: the helper declares \<open>["a", "b"]\<close> and the compiled code is
  \<open>dbt.config(packages=["b", "c"])\<close>, in the simulated session, which iterates a
  set in insertion order.
\<close>

theorem merged_packages_are_the_union_witness:
  "\<exists>pkgs r s' rest.
       effective_packages (sim_env (parse_as bc_call) always_ok 0)
         (helper [CStr ''a'', CStr ''b''] 25) bc_call_text = Inr pkgs
     \<and> set pkgs = {CStr ''a'', CStr ''b'', CStr ''c''}
     \<and> distinct (map py_key pkgs)
     \<and> submit (sim_env (parse_as bc_call) always_ok 0) (helper [CStr ''a'', CStr ''b''] 25)
         bc_call_text sim_start = Some (r, s')
     \<and> submitted_codes (trace s') = install_code pkgs # rest"
proof -
  let ?env = "sim_env (parse_as bc_call) always_ok 0"
  let ?self = "helper [CStr ''a'', CStr ''b''] 25"
  let ?abc = "[CStr ''a'', CStr ''b'', CStr ''c'']"
  let ?s0 = "\<lparr>world = sim_start, trace = [EvConnect, EvCursor]\<rparr>"
  let ?sb = "\<lparr>world = \<lparr>clock = 0, submitted = 2, fetches = 2, closes = 0\<rparr>,
             trace = [EvConnect, EvCursor, EvRunStatement ''session'' (install_code ?abc),
                      EvGetStatement ''session'' 0, EvRunStatement ''session'' bc_call_text,
                      EvGetStatement ''session'' 1]\<rparr>"
  have perm: "\<forall>keys. mset (set_order ?env keys) = mset keys"
    by (simp add: sim_env_def)
  have decl: "packages ?self = DeclaredList [CStr ''a'', CStr ''b'']"
    by (simp add: helper_def)
  have scan: "extract_packages_from_code (ast_parse ?env) (Text bc_call_text)
                = Inr [CStr ''b'', CStr ''c'']"
    by (simp add: sim_env_def extract_packages_from_code_def extract_try_body_def
          bc_call_def concrete_ast_defs)
  have eff: "effective_packages ?env ?self bc_call_text = Inr ?abc"
    using scan by (simp add: effective_packages_def helper_def merge_packages_def
        dict_fromkeys_def py_eq_def sim_env_def)
  have conn: "open_connection ?env sim_start = (Inr ''session'', ?s0)"
    by (simp add: sim_run_defs)
  have body: "submit_try ?env ?self ''session'' bc_call_text ?abc ?s0 = Some (Inr None, ?sb)"
    by (simp add: submit_try_def install_packages_def sim_run_defs lower_ok)
  show ?thesis
    using merged_packages_are_the_union [OF perm decl scan]
  proof (elim exE conjE)
    fix pkgs
    assume p: "effective_packages ?env ?self bc_call_text = Inr pkgs"
      and d: "distinct (map py_key pkgs)"
      and ex: "\<forall>a b c. [CStr ''a'', CStr ''b''] = [CStr a, CStr b]
               \<and> [CStr ''b'', CStr ''c''] = [CStr b, CStr c] \<longrightarrow>
             set pkgs = {CStr a, CStr b, CStr c}"
      and first: "\<forall>w session_id s0 rb sb. open_connection ?env w = (Inr session_id, s0)
             \<and> submit_try ?env ?self session_id bc_call_text pkgs s0 = Some (rb, sb) \<longrightarrow>
             (\<exists>r s' rest. submit ?env ?self bc_call_text w = Some (r, s')
                \<and> submitted_codes (trace s')
                    = (if pkgs = [] then bc_call_text else install_code pkgs) # rest)"
    from p eff have pkgs: "pkgs = ?abc" by simp
    from ex [rule_format, of "''a''" "''b''" "''c''"]
    have s: "set pkgs = {CStr ''a'', CStr ''b'', CStr ''c''}" by simp
    from body pkgs
    have body': "submit_try ?env ?self ''session'' bc_call_text pkgs ?s0 = Some (Inr None, ?sb)"
      by simp
    from first [rule_format, OF conjI [OF conn body']] pkgs
    obtain r s' rest where "submit ?env ?self bc_call_text sim_start = Some (r, s')"
      and "submitted_codes (trace s') = install_code pkgs # rest"
      by auto
    with p s d show ?thesis by blast
  qed
qed

end
